theory Spec2Isabelle
  imports
    Complex_Main
    "HOL-Library.AList"
    "HOL-Library.Char_ord"
    "HOL-Library.List_Lexorder"
    "HOL-Library.Product_Lexorder"
begin

section \<open>Values, series and frames\<close>

text \<open>
  The notebooks work on pandas data. A float cell is a \<open>real option\<close>: \<open>None\<close> is the
  missing value NaN, \<open>Some v\<close> a number (the reals stand for the floats). A Series is a
  list of cells, a DataFrame of float columns is an association list from the column name
  to its Series, in column order.
\<close>

type_synonym series = "real option list"

type_synonym frame = "(string \<times> series) list"

datatype error =
  KeyError string | ValueError string | TypeError string | NameError string
  | FileNotFoundError string

text \<open>An exception leaves the cell at once: the rest of the computation is skipped.\<close>

definition and_then :: "error + 'a \<Rightarrow> ('a \<Rightarrow> error + 'b) \<Rightarrow> error + 'b" where
  "and_then r f = (case r of Inl e \<Rightarrow> Inl e | Inr v \<Rightarrow> f v)"

text \<open>\<open>s.isnull().any()\<close> and \<open>s.isnull().sum()\<close>.\<close>

definition isnull_any :: "series \<Rightarrow> bool" where
  "isnull_any s = (None \<in> set s)"

definition isnull_sum :: "series \<Rightarrow> nat" where
  "isnull_sum s = length (filter (\<lambda>v. v = None) s)"

text \<open>The values of a Series that are present, in order.\<close>

definition present :: "series \<Rightarrow> real list" where
  "present s = map the (filter (\<lambda>v. v \<noteq> None) s)"

text \<open>
  \<open>s.mean()\<close> skips the missing values; the mean of a Series with no value present is NaN.
\<close>

definition series_mean :: "series \<Rightarrow> real option" where
  "series_mean s =
     (if present s = [] then None
      else Some (sum_list (present s) / real (length (present s))))"

text \<open>\<open>s.fillna(v)\<close>: filling with NaN changes nothing.\<close>

definition fillna :: "real option \<Rightarrow> series \<Rightarrow> series" where
  "fillna mean_val s =
     (case mean_val of
        None \<Rightarrow> s
      | Some v \<Rightarrow> map (\<lambda>x. case x of None \<Rightarrow> Some v | Some y \<Rightarrow> Some y) s)"

text \<open>
  \<open>df[names]\<close> selects columns by name, in the order of \<open>names\<close>, and raises KeyError
  for a name that is not a column.
\<close>

fun getitem_cols :: "frame \<Rightarrow> string list \<Rightarrow> error + frame" where
  "getitem_cols df [] = Inr []"
| "getitem_cols df (c # cs) =
     (case map_of df c of
        None \<Rightarrow> Inl (KeyError c)
      | Some s \<Rightarrow> and_then (getitem_cols df cs) (\<lambda>rest. Inr ((c, s) # rest)))"

text \<open>Number of rows of a frame (its index length, read off the first column).\<close>

definition n_rows :: "frame \<Rightarrow> nat" where
  "n_rows df = (case df of [] \<Rightarrow> 0 | (c, s) # rest \<Rightarrow> length s)"

text \<open>\<open>df.isnull().sum().sum()\<close>.\<close>

definition frame_isnull_sum :: "frame \<Rightarrow> nat" where
  "frame_isnull_sum df = sum_list (map (\<lambda>(c, s). isnull_sum s) df)"

section \<open>Notebook 09: data preparation\<close>

text \<open>
  The master table, column by column: the three identifier columns, the target column
  and, in file order, every other column with its name.
\<close>

record master_df =
  woreda_id :: "string list"
  woreda_name :: "string list"
  year :: "int list"
  annual_yield_quintals_ha :: series
  other :: frame

text \<open>Row selection by a boolean mask, \<open>df[mask]\<close>.\<close>

definition boolean_mask :: "bool list \<Rightarrow> 'a list \<Rightarrow> 'a list" where
  "boolean_mask keep xs = map snd (filter fst (zip keep xs))"

definition take_rows :: "bool list \<Rightarrow> master_df \<Rightarrow> master_df" where
  "take_rows keep df =
     \<lparr> woreda_id = boolean_mask keep (woreda_id df),
       woreda_name = boolean_mask keep (woreda_name df),
       year = boolean_mask keep (year df),
       annual_yield_quintals_ha = boolean_mask keep (annual_yield_quintals_ha df),
       other = map (\<lambda>(c, s). (c, boolean_mask keep s)) (other df) \<rparr>"

text \<open>\<open>df_master.dropna(subset=['annual_yield_quintals_ha'])\<close>\<close>

definition df_train_of :: "master_df \<Rightarrow> master_df" where
  "df_train_of df_master =
     take_rows (map (\<lambda>v. v \<noteq> None) (annual_yield_quintals_ha df_master)) df_master"

text \<open>\<open>df_master[df_master['year'] == 2025]\<close>\<close>

definition df_2025_of :: "master_df \<Rightarrow> master_df" where
  "df_2025_of df_master = take_rows (map (\<lambda>yr. yr = 2025) (year df_master)) df_master"

text \<open>
  \<open>[col for col in df_train.columns if col not in
     ['woreda_id', 'woreda_name', 'year', 'annual_yield_quintals_ha']]\<close>
\<close>

definition feature_cols_of :: "master_df \<Rightarrow> string list" where
  "feature_cols_of df_train =
     filter
       (\<lambda>col. col \<notin> set [''woreda_id'', ''woreda_name'', ''year'', ''annual_yield_quintals_ha''])
       (map fst (other df_train))"

text \<open>
  The imputation loop over \<open>feature_cols\<close>. The state is the pair of frames \<open>X\<close> and
  \<open>X_2025\<close>, both updated in place by the source, and the lines printed so far (the column
  and the mean it was filled with).
\<close>

fun impute ::
  "string list \<Rightarrow> frame \<Rightarrow> frame \<Rightarrow> (string \<times> real option) list
     \<Rightarrow> error + (frame \<times> frame \<times> (string \<times> real option) list)"
where
  "impute [] X X_2025 printed = Inr (X, X_2025, printed)"
| "impute (col # cols) X X_2025 printed =
     (case map_of X col of
        None \<Rightarrow> Inl (KeyError col)
      | Some s \<Rightarrow>
          if isnull_any s then
            (let mean_val = series_mean s;
                 X' = AList.update col (fillna mean_val s) X
             in case map_of X_2025 col of
                  None \<Rightarrow> Inl (KeyError col)
                | Some s_2025 \<Rightarrow>
                    impute cols X' (AList.update col (fillna mean_val s_2025) X_2025)
                      (printed @ [(col, mean_val)]))
          else impute cols X X_2025 printed)"

text \<open>
  \<open>StandardScaler\<close> of scikit-learn, as its documentation describes it: \<open>fit\<close> stores, for
  each column, the mean, the population variance and the scale (its attributes with these
  names and a trailing underscore), the scale being the square root
  of the variance, or 1 for a constant column; missing values are disregarded in \<open>fit\<close> and
  kept by \<open>transform\<close>. Both calls refuse an input with no row or no column, and
  \<open>transform\<close> refuses an input whose number of columns differs from the fitted one.
\<close>

record scaler =
  scaler_mean :: "real option list"
  scaler_var :: "real option list"
  scaler_scale :: "real option list"

definition series_var :: "series \<Rightarrow> real option" where
  "series_var s =
     (case series_mean s of
        None \<Rightarrow> None
      | Some m \<Rightarrow>
          Some (sum_list (map (\<lambda>v. (v - m) ^ 2) (present s)) / real (length (present s))))"

definition handle_zeros_in_scale :: "real option \<Rightarrow> real option" where
  "handle_zeros_in_scale v =
     (case v of None \<Rightarrow> None | Some x \<Rightarrow> Some (if x = 0 then 1 else sqrt x))"

definition StandardScaler_fit :: "frame \<Rightarrow> error + scaler" where
  "StandardScaler_fit X =
     (if X = [] \<or> n_rows X = 0 then Inl (ValueError ''Found array with 0 sample(s) or feature(s)'')
      else Inr \<lparr> scaler_mean = map (\<lambda>(c, s). series_mean s) X,
                 scaler_var = map (\<lambda>(c, s). series_var s) X,
                 scaler_scale = map (\<lambda>(c, s). handle_zeros_in_scale (series_var s)) X \<rparr>)"

definition standardize :: "real option \<Rightarrow> real option \<Rightarrow> real option \<Rightarrow> real option" where
  "standardize mu sigma x =
     (case (x, mu, sigma) of
        (Some v, Some m, Some sc) \<Rightarrow> Some ((v - m) / sc)
      | _ \<Rightarrow> None)"

definition StandardScaler_transform :: "scaler \<Rightarrow> frame \<Rightarrow> error + series list" where
  "StandardScaler_transform sc X =
     (if X = [] \<or> n_rows X = 0 then Inl (ValueError ''Found array with 0 sample(s) or feature(s)'')
      else if length X \<noteq> length (scaler_mean sc) then
        Inl (ValueError ''X has a different number of features than StandardScaler expects'')
      else Inr (map (\<lambda>((c, s), mu, sigma). map (standardize mu sigma) s)
                  (zip X (zip (scaler_mean sc) (scaler_scale sc)))))"

text \<open>\<open>pd.DataFrame(array, columns=names, index=...)\<close>\<close>

definition DataFrame :: "series list \<Rightarrow> string list \<Rightarrow> error + frame" where
  "DataFrame arr names =
     (if length arr \<noteq> length names then Inl (ValueError ''Shape of passed values'')
      else Inr (zip names arr))"

text \<open>
  Section 3 of the notebook. The first steps are named, so that what they compute can be
  spoken about on its own.
\<close>

definition split_master :: "master_df \<Rightarrow> error + (string list \<times> frame \<times> series \<times> frame)" where
  "split_master df_master =
     (let df_train = df_train_of df_master;
          df_2025 = df_2025_of df_master;
          feature_cols = feature_cols_of df_train
      in and_then (getitem_cols (other df_train) feature_cols) (\<lambda>X.
         and_then (getitem_cols (other df_2025) feature_cols) (\<lambda>X_2025.
         Inr (feature_cols, X, annual_yield_quintals_ha df_train, X_2025))))"

definition imputed :: "master_df \<Rightarrow> error + (frame \<times> frame \<times> (string \<times> real option) list)" where
  "imputed df_master =
     and_then (split_master df_master) (\<lambda>(feature_cols, X, y, X_2025).
       impute feature_cols X X_2025 [])"

record prepared =
  feature_cols :: "string list"
  X :: frame
  y :: series
  X_2025 :: frame
  printed_means :: "(string \<times> real option) list"
  warning :: bool
  fitted_scaler :: scaler
  X_scaled_df :: frame
  X_2025_scaled_df :: frame

definition prepare :: "master_df \<Rightarrow> error + prepared" where
  "prepare df_master =
     and_then (split_master df_master) (\<lambda>(cols, X0, target, X0_2025).
     and_then (impute cols X0 X0_2025 []) (\<lambda>(X1, X1_2025, printed).
     and_then (StandardScaler_fit X1) (\<lambda>sc.
     and_then (StandardScaler_transform sc X1) (\<lambda>X_scaled.
     and_then (StandardScaler_transform sc X1_2025) (\<lambda>X_2025_scaled.
     and_then (DataFrame X_scaled cols) (\<lambda>X_df.
     and_then (DataFrame X_2025_scaled cols) (\<lambda>X_2025_df.
       Inr \<lparr> feature_cols = cols, X = X1, y = target, X_2025 = X1_2025,
             printed_means = printed,
             warning = (frame_isnull_sum X1 > 0 \<or> frame_isnull_sum X1_2025 > 0),
             fitted_scaler = sc, X_scaled_df = X_df, X_2025_scaled_df = X_2025_df \<rparr>)))))))"

text \<open>The statistics the preparation fits: the imputation means and the scaler.\<close>

definition training_features :: "master_df \<Rightarrow> error + frame" where
  "training_features df_master =
     getitem_cols (other (df_train_of df_master)) (feature_cols_of (df_train_of df_master))"

definition imputation_means :: "master_df \<Rightarrow> error + (string \<times> real option) list" where
  "imputation_means df_master =
     and_then (imputed df_master) (\<lambda>(X1, X1_2025, printed). Inr printed)"

definition scaler_fitted :: "master_df \<Rightarrow> error + scaler" where
  "scaler_fitted df_master =
     and_then (imputed df_master) (\<lambda>(X1, X1_2025, printed). StandardScaler_fit X1)"

section \<open>Notebook 09: model training, selection and prediction\<close>

text \<open>
  The estimators are scikit-learn and XGBoost objects. What the notebook asks of them is
  taken as a parameter: \<open>cross_val_score\<close> with the three scorers (it works on clones and
  leaves the estimator as it is), \<open>fit\<close>, which returns the fitted estimator, and
  \<open>predict\<close>. Each may raise. A score array may hold NaN.
\<close>

datatype scoring = neg_mean_squared_error | r2 | neg_mean_absolute_error

record 'm estimators =
  cross_val_score :: "'m \<Rightarrow> frame \<Rightarrow> series \<Rightarrow> scoring \<Rightarrow> error + series"
  fit :: "'m \<Rightarrow> frame \<Rightarrow> series \<Rightarrow> error + 'm"
  predict :: "'m \<Rightarrow> frame \<Rightarrow> error + real list"

text \<open>numpy on arrays with NaN: negation, \<open>np.sqrt\<close>, \<open>np.mean\<close> and \<open>np.std\<close>.\<close>

definition np_neg :: "series \<Rightarrow> series" where
  "np_neg a = map (map_option uminus) a"

definition np_sqrt :: "series \<Rightarrow> series" where
  "np_sqrt a =
     map (\<lambda>x. case x of None \<Rightarrow> None | Some v \<Rightarrow> if v < 0 then None else Some (sqrt v)) a"

definition np_mean :: "series \<Rightarrow> real option" where
  "np_mean a =
     (if a = [] \<or> None \<in> set a then None
      else Some (sum_list (map the a) / real (length a)))"

definition np_std :: "series \<Rightarrow> real option" where
  "np_std a =
     (case np_mean a of
        None \<Rightarrow> None
      | Some m \<Rightarrow> Some (sqrt (sum_list (map (\<lambda>v. (the v - m) ^ 2) a) / real (length a))))"

record result_row =
  Model :: string
  Avg_RMSE :: "real option"
  Std_RMSE :: "real option"
  Avg_R2 :: "real option"
  Std_R2 :: "real option"
  Avg_MAE :: "real option"
  Std_MAE :: "real option"

text \<open>\<open>best_rmse\<close> starts as \<open>float('inf')\<close> and afterwards holds a mean RMSE.\<close>

datatype threshold = float_inf | float_val real

fun less_than :: "real \<Rightarrow> threshold \<Rightarrow> bool" where
  "less_than a float_inf = True"
| "less_than a (float_val b) = (a < b)"

text \<open>
  The state of the training loop: the \<open>results\<close> list, \<open>best_rmse\<close>, \<open>best_model\<close> (the
  dict with the keys 'Model' and 'Trained Model', or None), and the estimators of the
  \<open>models\<close> dict that the loop has fitted so far, under their names.
\<close>

record 'm selection =
  results :: "result_row list"
  best_rmse :: threshold
  best_model :: "(string \<times> 'm) option"
  models_fitted :: "(string \<times> 'm) list"

definition avg_rmse_of :: "series \<Rightarrow> real option" where
  "avg_rmse_of mse_scores = np_mean (np_sqrt (np_neg mse_scores))"

text \<open>One pass of the loop body, for the variant \<open>name\<close> with the estimator \<open>model\<close>.\<close>

definition train_variant ::
  "'m estimators \<Rightarrow> frame \<Rightarrow> series \<Rightarrow> string \<Rightarrow> 'm \<Rightarrow> 'm selection \<Rightarrow> error + 'm selection"
where
  "train_variant sk X_df target name model st =
     and_then (cross_val_score sk model X_df target neg_mean_squared_error) (\<lambda>mse.
     and_then (cross_val_score sk model X_df target r2) (\<lambda>r2_scores.
     and_then (cross_val_score sk model X_df target neg_mean_absolute_error) (\<lambda>mae.
       let rmse_scores = np_sqrt (np_neg mse);
           mae_scores = np_neg mae;
           avg_rmse = np_mean rmse_scores;
           row = \<lparr> Model = name,
                   Avg_RMSE = avg_rmse, Std_RMSE = np_std rmse_scores,
                   Avg_R2 = np_mean r2_scores, Std_R2 = np_std r2_scores,
                   Avg_MAE = np_mean mae_scores, Std_MAE = np_std mae_scores \<rparr>
       in and_then (fit sk model X_df target) (\<lambda>trained.
            let st' = st \<lparr> results := results st @ [row],
                           models_fitted := models_fitted st @ [(name, trained)] \<rparr>
            in Inr (case avg_rmse of
                      None \<Rightarrow> st'
                    | Some a \<Rightarrow>
                        if less_than a (best_rmse st)
                        then st' \<lparr> best_rmse := float_val a, best_model := Some (name, trained) \<rparr>
                        else st')))))"

text \<open>\<open>for name, model in models.items()\<close>, in the insertion order of the dict.\<close>

fun train_loop ::
  "'m estimators \<Rightarrow> frame \<Rightarrow> series \<Rightarrow> (string \<times> 'm) list \<Rightarrow> 'm selection \<Rightarrow> error + 'm selection"
where
  "train_loop sk X_df target [] st = Inr st"
| "train_loop sk X_df target ((name, model) # rest) st =
     and_then (train_variant sk X_df target name model st) (train_loop sk X_df target rest)"

definition initial_selection :: "'m selection" where
  "initial_selection =
     \<lparr> results = [], best_rmse = float_inf, best_model = None, models_fitted = [] \<rparr>"

text \<open>The three pickled files.\<close>

record 'm artifacts =
  best_yield_prediction_model :: 'm
  feature_scaler :: scaler
  feature_columns :: "string list"

text \<open>
  Section 4 of the notebook: the loop; then the results are sorted by 'Avg RMSE' for
  printing (a KeyError when there is no result row, and so no such column), \<open>best_model['Model']\<close>
  is printed (a TypeError when no variant was selected) and the artifacts are written.
\<close>

definition train_and_select ::
  "'m estimators \<Rightarrow> (string \<times> 'm) list \<Rightarrow> prepared \<Rightarrow> error + ('m selection \<times> 'm artifacts)"
where
  "train_and_select sk models p =
     and_then (train_loop sk (X_scaled_df p) (y p) models initial_selection) (\<lambda>st.
       if results st = [] then Inl (KeyError ''Avg RMSE'')
       else case best_model st of
         None \<Rightarrow> Inl (TypeError ''NoneType object is not subscriptable'')
       | Some (name, trained) \<Rightarrow>
           Inr (st, \<lparr> best_yield_prediction_model = trained,
                      feature_scaler = fitted_scaler p,
                      feature_columns = feature_cols p \<rparr>))"

text \<open>\<open>lambda x: max(0, x)\<close>: Python's \<open>max\<close> keeps its first argument unless a later one is greater.\<close>

definition max0 :: "real \<Rightarrow> real" where
  "max0 x = (if x > 0 then x else 0)"

definition clamp_predictions :: "real list \<Rightarrow> real list" where
  "clamp_predictions predictions = map max0 predictions"

text \<open>
  Section 5: the prediction table, the rows (woreda_id, woreda_name, year,
  predicted_yield_quintals_ha) of the CSV file. Assigning a column of the wrong length
  raises.
\<close>

definition predict_2025 ::
  "'m estimators \<Rightarrow> 'm \<Rightarrow> frame \<Rightarrow> master_df \<Rightarrow> error + (string \<times> string \<times> int \<times> real) list"
where
  "predict_2025 sk trained X_2025_df df_2025 =
     and_then (predict sk trained X_2025_df) (\<lambda>predictions_2025.
       if length predictions_2025 \<noteq> length (year df_2025)
       then Inl (ValueError ''Length of values does not match length of index'')
       else Inr (zip (woreda_id df_2025)
                  (zip (woreda_name df_2025)
                    (zip (year df_2025) (clamp_predictions predictions_2025)))))"

text \<open>
  The notebook from the loaded master table to the prediction table. Section 5 predicts
  with \<open>best_model['Trained Model']\<close> and is skipped when there is no best model.
\<close>

definition notebook_09 ::
  "'m estimators \<Rightarrow> (string \<times> 'm) list \<Rightarrow> master_df
     \<Rightarrow> error + (prepared \<times> 'm selection \<times> 'm artifacts \<times> (string \<times> string \<times> int \<times> real) list)"
where
  "notebook_09 sk models df_master =
     and_then (prepare df_master) (\<lambda>p.
     and_then (train_and_select sk models p) (\<lambda>(st, saved).
       case best_model st of
         None \<Rightarrow> Inr (p, st, saved, [])
       | Some (name, trained) \<Rightarrow>
           and_then (predict_2025 sk trained (X_2025_scaled_df p) (df_2025_of df_master))
             (\<lambda>table. Inr (p, st, saved, table))))"

section \<open>Notebook 05: monthly vegetation indices per woreda\<close>

text \<open>
  A row of the concatenated table \<open>df_monthly_vi\<close>: the columns woreda_id, year, month,
  avg_ndvi and avg_savi; after the name lookup, the column woreda_name as well, which is
  missing where the lookup found nothing.
\<close>

record vi_row =
  woreda_id_vi :: string
  year_vi :: int
  month_vi :: int
  avg_ndvi :: "real option"
  avg_savi :: "real option"

record vi_named_row = vi_row +
  woreda_name_vi :: "string option"

text \<open>\<open>df_monthly_vi['woreda_name'] = df_monthly_vi['woreda_id'].map(woreda_name_map)\<close>\<close>

definition map_woreda_name :: "(string \<rightharpoonup> string) \<Rightarrow> vi_row list \<Rightarrow> vi_named_row list" where
  "map_woreda_name woreda_name_map df =
     map (\<lambda>r. \<lparr> woreda_id_vi = woreda_id_vi r, year_vi = year_vi r, month_vi = month_vi r,
                avg_ndvi = avg_ndvi r, avg_savi = avg_savi r,
                woreda_name_vi = woreda_name_map (woreda_id_vi r) \<rparr>) df"

text \<open>\<open>df_monthly_vi.dropna(subset=['woreda_name'], inplace=True)\<close>\<close>

definition dropna_woreda_name :: "vi_named_row list \<Rightarrow> vi_named_row list" where
  "dropna_woreda_name df = filter (\<lambda>r. woreda_name_vi r \<noteq> None) df"

text \<open>
  \<open>groupby(['woreda_id', 'woreda_name', 'year', 'month']).mean().reset_index()\<close>: rows with
  a missing key are left out, there is one output row for each key, in the order of the
  keys, and the other columns hold the mean of the group.
\<close>

definition group_key :: "vi_named_row \<Rightarrow> string \<times> string \<times> int \<times> int" where
  "group_key r = (woreda_id_vi r, the (woreda_name_vi r), year_vi r, month_vi r)"

definition groupby_mean :: "vi_named_row list \<Rightarrow> vi_named_row list" where
  "groupby_mean df =
     (let rows = filter (\<lambda>r. woreda_name_vi r \<noteq> None) df;
          keys = sort (remdups (map group_key rows))
      in map (\<lambda>(wid, name, yr, mo).
                let g = filter (\<lambda>r. group_key r = (wid, name, yr, mo)) rows
                in \<lparr> woreda_id_vi = wid, year_vi = yr, month_vi = mo,
                     avg_ndvi = series_mean (map avg_ndvi g),
                     avg_savi = series_mean (map avg_savi g),
                     woreda_name_vi = Some name \<rparr>) keys)"

text \<open>\<open>sort_values(by=['woreda_id', 'year', 'month']).reset_index(drop=True)\<close>\<close>

definition sort_values :: "vi_named_row list \<Rightarrow> vi_named_row list" where
  "sort_values df = sort_key (\<lambda>r. (woreda_id_vi r, year_vi r, month_vi r)) df"

text \<open>
  The steps of the guarded block between \<open>pd.concat\<close> and \<open>to_csv\<close>: what the block makes
  of the concatenated table once it is reached with a name map.
\<close>

definition aggregate_vi :: "(string \<rightharpoonup> string) \<Rightarrow> vi_row list \<Rightarrow> vi_named_row list" where
  "aggregate_vi woreda_name_map df_monthly_vi =
     sort_values (groupby_mean (dropna_woreda_name (map_woreda_name woreda_name_map df_monthly_vi)))"

text \<open>
  The cell as a whole. It starts by loading the woreda boundaries with \<open>gpd.read_file\<close>.
  The global names bound at that point are those of the import statements and of the
  assignments before the \<open>try\<close> statement. \<open>gpd\<close> is not one of them: the notebook has no
  import of geopandas, and evaluating the name raises NameError.
\<close>

definition notebook_05_globals :: "string list" where
  "notebook_05_globals =
     [''pd'', ''np'', ''os'', ''sys'', ''project_root'', ''download_gcs_files'',
      ''BUCKET_NAME'', ''START_DATE'', ''END_DATE'', ''processed_data_dir'', ''gee_exports_dir'',
      ''sentinel2_export_gcs_folder'', ''sentinel2_download_dir'',
      ''PROCESSED_WOREDAS_GEOJSON_PATH'', ''gdf_woredas'']"

definition global_name :: "string \<Rightarrow> 'a \<Rightarrow> error + 'a" where
  "global_name n v = (if n \<in> set notebook_05_globals then Inr v else Inl (NameError n))"

text \<open>
  A boundary table as \<open>read_file\<close> would return it: its column names and, row by row, the
  Woreda_ID (as a string) and the Woreda Name, which may be null.
\<close>

record gdf =
  gdf_columns :: "string list"
  gdf_rows :: "(string \<times> string option) list"

text \<open>
  \<open>gdf_woredas.set_index('Woreda_ID')['Woreda Name'].to_dict()\<close>: of two rows with the same
  id the later one counts; an id whose name is null has no name to look up.
\<close>

definition to_dict :: "(string \<times> string option) list \<Rightarrow> (string \<rightharpoonup> string)" where
  "to_dict rows = (\<lambda>wid. case map_of (rev rows) wid of Some (Some name) \<Rightarrow> Some name | _ \<Rightarrow> None)"

definition PROCESSED_WOREDAS_GEOJSON_PATH :: string where
  "PROCESSED_WOREDAS_GEOJSON_PATH = ''../data/processed/sidama_woredas.geojson''"

text \<open>
  The \<open>try\<close> statement, with \<open>read_file\<close> standing for what geopandas would do were \<open>gpd\<close>
  bound. It returns the values of \<open>gdf_woredas\<close> and of \<open>woreda_name_map\<close> afterwards (None
  for a name that is None or unbound). \<open>gdf_woredas\<close> is None before; an exception raised
  by the first statement is caught by one of the three handlers, which print, and leaves
  it None; the ValueError for a missing column is raised after the assignment and leaves
  \<open>woreda_name_map\<close> unbound.
\<close>

definition load_woredas ::
  "(string \<Rightarrow> error + gdf) \<Rightarrow> gdf option \<times> (string \<rightharpoonup> string) option"
where
  "load_woredas read_file =
     (case and_then (global_name ''gpd'' read_file) (\<lambda>f. f PROCESSED_WOREDAS_GEOJSON_PATH) of
        Inl e \<Rightarrow> (None, None)
      | Inr g \<Rightarrow>
          if ''Woreda_ID'' \<notin> set (gdf_columns g) \<or> ''Woreda Name'' \<notin> set (gdf_columns g)
          then (Some g, None)
          else (Some g, Some (to_dict (gdf_rows g))))"

text \<open>
  The rest of the cell runs under \<open>if gdf_woredas is not None\<close>. \<open>all_vi_data\<close> is the list
  of the frames that the loop over the downloaded files collects (the download and the
  reading of the files are outside the model). The result is the table written to
  woreda_monthly_vegetation_indices.csv, or None when nothing is written.
\<close>

definition notebook_05 ::
  "(string \<Rightarrow> error + gdf) \<Rightarrow> vi_row list list \<Rightarrow> error + vi_named_row list option"
where
  "notebook_05 read_file all_vi_data =
     (case load_woredas read_file of
        (None, names) \<Rightarrow> Inr None
      | (Some gdf_woredas, names) \<Rightarrow>
          if all_vi_data = [] then Inr None
          else (case names of
                  None \<Rightarrow> Inl (NameError ''woreda_name_map'')
                | Some woreda_name_map \<Rightarrow>
                    Inr (Some (aggregate_vi woreda_name_map (concat all_vi_data)))))"

text \<open>The rows of a table with a given (woreda_id, year, month).\<close>

definition rows_of :: "string \<Rightarrow> int \<Rightarrow> int \<Rightarrow> ('a vi_row_scheme) list \<Rightarrow> ('a vi_row_scheme) list" where
  "rows_of wid yr mo df = filter (\<lambda>r. woreda_id_vi r = wid \<and> year_vi r = yr \<and> month_vi r = mo) df"

section \<open>Derived notions used in the statements\<close>

text \<open>
  What the imputation loop makes of one column: \<open>fill_train s\<close> is the training column \<open>s\<close>
  after its pass of the loop body, \<open>fill_with s t\<close> the 2025 column \<open>t\<close> after the pass for
  the training column \<open>s\<close>.
\<close>

definition fill_train :: "series \<Rightarrow> series" where
  "fill_train s = (if isnull_any s then fillna (series_mean s) s else s)"

definition fill_with :: "series \<Rightarrow> series \<Rightarrow> series" where
  "fill_with s t = (if isnull_any s then fillna (series_mean s) t else t)"

text \<open>The name and the length of every column of a frame.\<close>

definition shape :: "frame \<Rightarrow> (string \<times> nat) list" where
  "shape df = map (\<lambda>(c, s). (c, length s)) df"

text \<open>
  The mean cross-validated RMSE of an estimator, \<open>avg_rmse\<close> of the loop body; there is
  none when the scoring raises.
\<close>

definition mean_rmse :: "'m estimators \<Rightarrow> frame \<Rightarrow> series \<Rightarrow> 'm \<Rightarrow> real option" where
  "mean_rmse sk X_df target model =
     (case cross_val_score sk model X_df target neg_mean_squared_error of
        Inl e \<Rightarrow> None
      | Inr mse \<Rightarrow> avg_rmse_of mse)"

text \<open>A variant raises when one of its three scorings or its fit on the full data raises.\<close>

definition variant_raises :: "'m estimators \<Rightarrow> frame \<Rightarrow> series \<Rightarrow> 'm \<Rightarrow> bool" where
  "variant_raises sk X_df target model =
     (isl (cross_val_score sk model X_df target neg_mean_squared_error)
      \<or> isl (cross_val_score sk model X_df target r2)
      \<or> isl (cross_val_score sk model X_df target neg_mean_absolute_error)
      \<or> isl (fit sk model X_df target))"

text \<open>The rows of notebook 05 that enter the groups: the rows whose name was found.\<close>

definition named_rows :: "(string \<rightharpoonup> string) \<Rightarrow> vi_row list \<Rightarrow> vi_named_row list" where
  "named_rows m df =
     filter (\<lambda>r. woreda_name_vi r \<noteq> None) (dropna_woreda_name (map_woreda_name m df))"

section \<open>Example inputs\<close>

text \<open>Small tables on which the statements below are evaluated.\<close>

definition example_master :: master_df where
  "example_master =
     \<lparr> woreda_id = [''W01'', ''W02'', ''W01'', ''W02''],
       woreda_name = [''Bensa'', ''Aroresa'', ''Bensa'', ''Aroresa''],
       year = [2024, 2024, 2025, 2025],
       annual_yield_quintals_ha = [Some 10, Some 12, None, None],
       other = [(''ndvi_mean'', [Some 1, Some 3, None, Some 2]),
                (''rain_sum'', [None, Some 4, None, Some 6])] \<rparr>"

definition example_prepared :: prepared where
  "example_prepared =
     \<lparr> feature_cols = [''ndvi_mean'', ''rain_sum''],
       X = [(''ndvi_mean'', [Some 1, Some 3]), (''rain_sum'', [Some 4, Some 4])],
       y = [Some 10, Some 12],
       X_2025 = [(''ndvi_mean'', [None, Some 2]), (''rain_sum'', [Some 4, Some 6])],
       printed_means = [(''rain_sum'', Some 4)],
       warning = True,
       fitted_scaler = \<lparr> scaler_mean = [Some 2, Some 4], scaler_var = [Some 1, Some 0],
                         scaler_scale = [Some 1, Some 1] \<rparr>,
       X_scaled_df = [(''ndvi_mean'', [Some (- 1), Some 1]), (''rain_sum'', [Some 0, Some 0])],
       X_2025_scaled_df = [(''ndvi_mean'', [None, Some 0]), (''rain_sum'', [Some 0, Some 2])] \<rparr>"

definition example_models :: "(string \<times> nat) list" where
  "example_models = [(''Random Forest'', 1), (''XGBoost'', 2), (''Ridge'', 3), (''Lasso'', 4)]"

definition example_scores :: "nat \<Rightarrow> scoring \<Rightarrow> series" where
  "example_scores model sc =
     (case sc of
        neg_mean_squared_error \<Rightarrow>
          (if model = 1 then [Some (- 4), Some (- 4)]
           else if model = 4 then [Some (- 1), None]
           else [Some (- 1), Some (- 1)])
      | r2 \<Rightarrow> [Some (1/2), Some (1/2)]
      | neg_mean_absolute_error \<Rightarrow> [Some (- 1), Some (- 1)])"

definition example_estimators :: "nat estimators" where
  "example_estimators =
     \<lparr> cross_val_score = (\<lambda>model X_df target sc. Inr (example_scores model sc)),
       fit = (\<lambda>model X_df target. Inr (model + 10)),
       predict = (\<lambda>model X_df. Inr [- 3/2, 5/2]) \<rparr>"

definition failing_estimators :: "nat estimators" where
  "failing_estimators =
     \<lparr> cross_val_score = (\<lambda>model X_df target sc. Inr (example_scores model sc)),
       fit = (\<lambda>model X_df target.
                if model = 3 then Inl (ValueError ''did not converge'') else Inr (model + 10)),
       predict = (\<lambda>model X_df. Inr [- 3/2, 5/2]) \<rparr>"

definition constant_score_estimators :: "nat estimators" where
  "constant_score_estimators =
     \<lparr> cross_val_score = (\<lambda>model X_df target sc. Inr [Some (- 1)]),
       fit = (\<lambda>model X_df target. Inr (model + 10)),
       predict = (\<lambda>model X_df. Inr [- 3/2, 5/2]) \<rparr>"

definition example_selection :: "nat selection" where
  "example_selection =
     \<lparr> results =
         [\<lparr> Model = ''Random Forest'', Avg_RMSE = Some 2, Std_RMSE = Some 0,
             Avg_R2 = Some (1/2), Std_R2 = Some 0, Avg_MAE = Some 1, Std_MAE = Some 0 \<rparr>,
          \<lparr> Model = ''XGBoost'', Avg_RMSE = Some 1, Std_RMSE = Some 0,
             Avg_R2 = Some (1/2), Std_R2 = Some 0, Avg_MAE = Some 1, Std_MAE = Some 0 \<rparr>,
          \<lparr> Model = ''Ridge'', Avg_RMSE = Some 1, Std_RMSE = Some 0,
             Avg_R2 = Some (1/2), Std_R2 = Some 0, Avg_MAE = Some 1, Std_MAE = Some 0 \<rparr>,
          \<lparr> Model = ''Lasso'', Avg_RMSE = None, Std_RMSE = None,
             Avg_R2 = Some (1/2), Std_R2 = Some 0, Avg_MAE = Some 1, Std_MAE = Some 0 \<rparr>],
       best_rmse = float_val 1,
       best_model = Some (''XGBoost'', 12),
       models_fitted = [(''Random Forest'', 11), (''XGBoost'', 12), (''Ridge'', 13), (''Lasso'', 14)] \<rparr>"

definition example_artifacts :: "nat artifacts" where
  "example_artifacts =
     \<lparr> best_yield_prediction_model = 12,
       feature_scaler = \<lparr> scaler_mean = [Some 2, Some 4], scaler_var = [Some 1, Some 0],
                          scaler_scale = [Some 1, Some 1] \<rparr>,
       feature_columns = [''ndvi_mean'', ''rain_sum''] \<rparr>"

definition example_master_b :: master_df where
  "example_master_b =
     \<lparr> woreda_id = [''W01'', ''W02'', ''W01'', ''W02'', ''W03''],
       woreda_name = [''Bensa'', ''Aroresa'', ''Bensa'', ''Aroresa'', ''Chire''],
       year = [2024, 2024, 2025, 2025, 2025],
       annual_yield_quintals_ha = [Some 10, Some 12, None, None, None],
       other = [(''ndvi_mean'', [Some 1, Some 3, Some 100, Some 200, None]),
                (''rain_sum'', [None, Some 4, Some 50, Some 60, Some 70])] \<rparr>"

definition example_master_c :: master_df where
  "example_master_c =
     \<lparr> woreda_id = [''W01'', ''W02'', ''W03'', ''W04'', ''W05'', ''W06'', ''W07'', ''W08'',
                    ''W01'', ''W02''],
       woreda_name = [''Bensa'', ''Aroresa'', ''Chire'', ''Dale'', ''Hula'', ''Bona'', ''Bursa'',
                      ''Gorche'', ''Bensa'', ''Aroresa''],
       year = [2024, 2024, 2024, 2024, 2024, 2024, 2024, 2024, 2025, 2025],
       annual_yield_quintals_ha =
         [Some 10, Some 12, Some 9, Some 11, Some 8, Some 13, Some 10, Some 12, None, None],
       other = [(''ndvi_mean'',
                   [Some 1, Some 1, Some 1, Some 1, Some 3, Some 3, Some 3, Some 3, None, Some 2]),
                (''rain_sum'',
                   [None, Some 4, Some 4, Some 4, Some 4, Some 4, Some 4, Some 4, None, Some 6])] \<rparr>"

definition example_prepared_c :: prepared where
  "example_prepared_c =
     \<lparr> feature_cols = [''ndvi_mean'', ''rain_sum''],
       X = [(''ndvi_mean'', [Some 1, Some 1, Some 1, Some 1, Some 3, Some 3, Some 3, Some 3]),
            (''rain_sum'', [Some 4, Some 4, Some 4, Some 4, Some 4, Some 4, Some 4, Some 4])],
       y = [Some 10, Some 12, Some 9, Some 11, Some 8, Some 13, Some 10, Some 12],
       X_2025 = [(''ndvi_mean'', [None, Some 2]), (''rain_sum'', [Some 4, Some 6])],
       printed_means = [(''rain_sum'', Some 4)],
       warning = True,
       fitted_scaler = \<lparr> scaler_mean = [Some 2, Some 4], scaler_var = [Some 1, Some 0],
                         scaler_scale = [Some 1, Some 1] \<rparr>,
       X_scaled_df =
         [(''ndvi_mean'',
             [Some (- 1), Some (- 1), Some (- 1), Some (- 1), Some 1, Some 1, Some 1, Some 1]),
          (''rain_sum'', [Some 0, Some 0, Some 0, Some 0, Some 0, Some 0, Some 0, Some 0])],
       X_2025_scaled_df = [(''ndvi_mean'', [None, Some 0]), (''rain_sum'', [Some 0, Some 2])] \<rparr>"

definition kfold_estimators :: "nat estimators" where
  "kfold_estimators =
     \<lparr> cross_val_score = (\<lambda>model X_df target sc.
         if n_rows X_df < 5
         then Inl (ValueError ''Cannot have number of splits n_splits=5 greater than the number of samples'')
         else Inr (example_scores model sc)),
       fit = (\<lambda>model X_df target.
         if frame_isnull_sum X_df > 0 then Inl (ValueError ''Input X contains NaN'')
         else Inr (model + 10)),
       predict = (\<lambda>model X_df.
         if frame_isnull_sum X_df > 0 then Inl (ValueError ''Input X contains NaN'')
         else Inr (replicate (n_rows X_df) 1)) \<rparr>"

definition example_gdf :: gdf where
  "example_gdf =
     \<lparr> gdf_columns = [''Woreda_ID'', ''Woreda Name'', ''geometry''],
       gdf_rows = [(''W01'', Some ''Bensa''), (''W02'', Some ''Aroresa'')] \<rparr>"

definition example_read_file :: "string \<Rightarrow> error + gdf" where
  "example_read_file path =
     (if path = PROCESSED_WOREDAS_GEOJSON_PATH then Inr example_gdf
      else Inl (FileNotFoundError path))"

definition example_files :: "vi_row list list" where
  "example_files =
     [ [ \<lparr> woreda_id_vi = ''W01'', year_vi = 2020, month_vi = 6, avg_ndvi = Some (1/5), avg_savi = Some 1 \<rparr>,
         \<lparr> woreda_id_vi = ''W99'', year_vi = 2020, month_vi = 6, avg_ndvi = Some 7, avg_savi = Some 7 \<rparr> ],
       [ \<lparr> woreda_id_vi = ''W01'', year_vi = 2020, month_vi = 6, avg_ndvi = Some (3/5), avg_savi = Some 3 \<rparr> ] ]"

section \<open>Basic facts\<close>

lemma and_then_Inr_iff:
  "and_then r f = Inr v \<longleftrightarrow> (\<exists>a. r = Inr a \<and> f a = Inr v)"
  by (cases r) (simp_all add: and_then_def)

lemma and_then_Inr [simp]: "and_then (Inr a) f = f a"
  by (simp add: and_then_def)

lemma and_then_Inl [simp]: "and_then (Inl e) f = Inl e"
  by (simp add: and_then_def)

lemma present_Nil [simp]: "present [] = []"
  and present_None [simp]: "present (None # s) = present s"
  and present_Some [simp]: "present (Some v # s) = v # present s"
  by (simp_all add: present_def)

lemma isnull_any_simps [simp]:
  "isnull_any [] = False" "isnull_any (None # s) = True" "isnull_any (Some v # s) = isnull_any s"
  by (auto simp: isnull_any_def)

lemma isnull_sum_simps [simp]:
  "isnull_sum [] = 0" "isnull_sum (None # s) = Suc (isnull_sum s)" "isnull_sum (Some v # s) = isnull_sum s"
  by (simp_all add: isnull_sum_def)

subsection \<open>Column selection and the split\<close>

lemma getitem_cols_names: "getitem_cols df cs = Inr r \<Longrightarrow> map fst r = cs"
  by (induction cs arbitrary: r) (auto simp: and_then_Inr_iff split: option.splits)

lemma getitem_cols_total:
  "set cs \<subseteq> fst ` set df \<Longrightarrow> getitem_cols df cs = Inr (map (\<lambda>c. (c, the (map_of df c))) cs)"
proof (induction cs)
  case Nil
  then show ?case by simp
next
  case (Cons c cs)
  then obtain s where "map_of df c = Some s"
    by (metis domD dom_map_of_conv_image_fst insert_subset list.simps(15))
  with Cons show ?case by simp
qed



lemma names_take_rows [simp]: "map fst (other (take_rows keep df)) = map fst (other df)"
  by (simp add: take_rows_def comp_def case_prod_unfold)

lemma feature_cols_of_take_rows [simp]:
  "feature_cols_of (take_rows keep df) = feature_cols_of df"
  by (simp add: feature_cols_of_def)

lemma split_master_total:
  "\<exists>X0 A0. split_master df =
      Inr (feature_cols_of (df_train_of df), X0, annual_yield_quintals_ha (df_train_of df), A0)
    \<and> getitem_cols (other (df_train_of df)) (feature_cols_of (df_train_of df)) = Inr X0
    \<and> getitem_cols (other (df_2025_of df)) (feature_cols_of (df_train_of df)) = Inr A0
    \<and> map fst X0 = feature_cols_of (df_train_of df)
    \<and> map fst A0 = feature_cols_of (df_train_of df)"
proof -
  let ?cols = "feature_cols_of (df_train_of df)"
  have 1: "set ?cols \<subseteq> fst ` set (other (df_train_of df))"
    by (auto simp: feature_cols_of_def)
  have "map fst (other (df_2025_of df)) = map fst (other (df_train_of df))"
    by (simp add: df_2025_of_def df_train_of_def)
  then have "fst ` set (other (df_2025_of df)) = fst ` set (other (df_train_of df))"
    by (metis image_set)
  with 1 have 2: "set ?cols \<subseteq> fst ` set (other (df_2025_of df))" by simp
  from getitem_cols_total[OF 1] getitem_cols_total[OF 2]
  show ?thesis
    by (simp add: split_master_def Let_def comp_def)
qed

subsection \<open>The imputation loop\<close>

lemma length_fillna [simp]: "length (fillna m s) = length s"
  by (simp add: fillna_def split: option.splits)

lemma fillna_None [simp]: "fillna None s = s"
  by (simp add: fillna_def)

lemma isnull_any_fillna_Some [simp]: "\<not> isnull_any (fillna (Some v) s)"
  by (auto simp: fillna_def isnull_any_def split: option.splits)

lemma fillna_complete: "\<not> isnull_any s \<Longrightarrow> fillna m s = s"
proof (cases m)
  case None
  then show ?thesis by simp
next
  case (Some v)
  assume a: "\<not> isnull_any s"
  have "(case x of None \<Rightarrow> Some v | Some w \<Rightarrow> Some w) = x" if "x \<in> set s" for x
  proof (cases x)
    case None
    with that a show ?thesis by (simp add: isnull_any_def)
  next
    case (Some w)
    then show ?thesis by simp
  qed
  then have "map (\<lambda>x. case x of None \<Rightarrow> Some v | Some w \<Rightarrow> Some w) s = s"
    by (simp add: map_idI)
  with Some show ?thesis by (simp add: fillna_def)
qed

lemma isnull_sum_0_iff: "isnull_sum s = 0 \<longleftrightarrow> \<not> isnull_any s"
  by (induction s) (auto simp: isnull_sum_def isnull_any_def)

lemma series_mean_None_iff: "series_mean s = None \<longleftrightarrow> (\<forall>v \<in> set s. v = None)"
  by (auto simp: series_mean_def present_def filter_empty_conv)

lemma fill_train_idem: "fill_train (fill_train s) = fill_train s"
  by (cases "series_mean s") (auto simp: fill_train_def)

lemma fill_with_idem: "fill_with (fill_train s) (fill_with s t) = fill_with s t"
  by (cases "series_mean s") (auto simp: fill_train_def fill_with_def)

lemma isnull_any_fill_train:
  "series_mean s \<noteq> None \<Longrightarrow> \<not> isnull_any (fill_train s)"
  by (auto simp: fill_train_def)

lemma isnull_any_fill_with:
  "series_mean s \<noteq> None \<Longrightarrow> isnull_any s \<Longrightarrow> \<not> isnull_any (fill_with s t)"
  by (auto simp: fill_with_def)

lemma frame_isnull_sum_pos:
  "map_of df c = Some t \<Longrightarrow> isnull_any t \<Longrightarrow> frame_isnull_sum df > 0"
proof (induction df)
  case Nil
  then show ?case by simp
next
  case (Cons a df)
  obtain c' t' where a: "a = (c', t')" by (cases a)
  have split: "frame_isnull_sum (a # df) = isnull_sum t' + frame_isnull_sum df"
    by (simp add: frame_isnull_sum_def a)
  show ?case
  proof (cases "c' = c")
    case True
    with Cons.prems a have "t' = t" by simp
    with Cons.prems(2) have "isnull_sum t' \<noteq> 0" by (simp add: isnull_sum_0_iff)
    with split show ?thesis by simp
  next
    case False
    with Cons a have "frame_isnull_sum df > 0" by simp
    with split show ?thesis by simp
  qed
qed

lemma map_fst_update_present:
  "map_of al k = Some v \<Longrightarrow> map fst (AList.update k w al) = map fst al"
  by (metis domI dom_map_of_conv_image_fst image_set update_keys)

lemma impute_columns:
  assumes "impute cols X0 A0 pr = Inr (X1, A1, pr1)"
  shows "map fst X1 = map fst X0 \<and> map fst A1 = map fst A0
       \<and> (\<forall>c. c \<notin> set cols \<longrightarrow> map_of X1 c = map_of X0 c \<and> map_of A1 c = map_of A0 c)
       \<and> (\<forall>c \<in> set cols. \<exists>s t. map_of X0 c = Some s \<and> map_of X1 c = Some (fill_train s)
              \<and> (isnull_any s \<longrightarrow> map_of A0 c = Some t \<and> map_of A1 c = Some (fill_with s t))
              \<and> (\<not> isnull_any s \<longrightarrow> map_of A1 c = map_of A0 c))"
  using assms
proof (induction cols arbitrary: X0 A0 pr)
  case Nil
  then show ?case by simp
next
  case (Cons col cols)
  from Cons.prems obtain s where s: "map_of X0 col = Some s"
    by (auto split: option.splits)
  show ?case
  proof (cases "isnull_any s")
    case False
    with Cons.prems s have r: "impute cols X0 A0 pr = Inr (X1, A1, pr1)" by simp
    note IH = Cons.IH[OF r]
    have here: "map_of X1 col = Some (fill_train s) \<and> map_of A1 col = map_of A0 col"
    proof (cases "col \<in> set cols")
      case True
      with IH s False show ?thesis by (fastforce simp: fill_train_def)
    next
      case False
      with IH s \<open>\<not> isnull_any s\<close> show ?thesis by (simp add: fill_train_def)
    qed
    show ?thesis using IH s False here by auto
  next
    case True
    with Cons.prems s obtain t where t: "map_of A0 col = Some t"
      by (auto split: option.splits simp: Let_def)
    define X' where "X' = AList.update col (fillna (series_mean s) s) X0"
    define A' where "A' = AList.update col (fillna (series_mean s) t) A0"
    from Cons.prems s t True
    have r: "impute cols X' A' (pr @ [(col, series_mean s)]) = Inr (X1, A1, pr1)"
      by (simp add: Let_def X'_def A'_def)
    note IH = Cons.IH[OF r]
    have X': "map_of X' = (map_of X0)(col \<mapsto> fill_train s)"
      by (simp add: X'_def update_conv' fill_train_def True)
    have A': "map_of A' = (map_of A0)(col \<mapsto> fill_with s t)"
      by (simp add: A'_def update_conv' fill_with_def True)
    have keys: "map fst X' = map fst X0" "map fst A' = map fst A0"
      using s t by (simp_all add: X'_def A'_def map_fst_update_present)
    have here: "map_of X1 col = Some (fill_train s) \<and> map_of A1 col = Some (fill_with s t)"
    proof (cases "col \<in> set cols")
      case c: True
      with IH obtain s' t' where
        s': "map_of X' col = Some s'" "map_of X1 col = Some (fill_train s')" and
        t': "isnull_any s' \<longrightarrow> map_of A' col = Some t' \<and> map_of A1 col = Some (fill_with s' t')"
            "\<not> isnull_any s' \<longrightarrow> map_of A1 col = map_of A' col"
        by blast
      from s' X' have e: "s' = fill_train s" by simp
      show ?thesis
      proof (cases "isnull_any s'")
        case True
        with t' A' have "t' = fill_with s t" "map_of A1 col = Some (fill_with s' t')" by simp_all
        then show ?thesis using s' e by (simp add: fill_train_idem fill_with_idem)
      next
        case False
        with t' A' show ?thesis using s' e by (simp add: fill_train_idem)
      qed
    next
      case False
      with IH X' A' show ?thesis by simp
    qed
    have others: "\<forall>c \<in> set cols. c \<noteq> col \<longrightarrow> (\<exists>s t. map_of X0 c = Some s \<and> map_of X1 c = Some (fill_train s)
              \<and> (isnull_any s \<longrightarrow> map_of A0 c = Some t \<and> map_of A1 c = Some (fill_with s t))
              \<and> (\<not> isnull_any s \<longrightarrow> map_of A1 c = map_of A0 c))"
    proof (intro ballI impI)
      fix c assume c: "c \<in> set cols" "c \<noteq> col"
      with IH obtain s' t' where
        "map_of X' c = Some s'" "map_of X1 c = Some (fill_train s')"
        "isnull_any s' \<longrightarrow> map_of A' c = Some t' \<and> map_of A1 c = Some (fill_with s' t')"
        "\<not> isnull_any s' \<longrightarrow> map_of A1 c = map_of A' c"
        by blast
      with c X' A' show "\<exists>s t. map_of X0 c = Some s \<and> map_of X1 c = Some (fill_train s)
              \<and> (isnull_any s \<longrightarrow> map_of A0 c = Some t \<and> map_of A1 c = Some (fill_with s t))
              \<and> (\<not> isnull_any s \<longrightarrow> map_of A1 c = map_of A0 c)"
        by auto
    qed
    have rest: "\<forall>c. c \<notin> set (col # cols) \<longrightarrow> map_of X1 c = map_of X0 c \<and> map_of A1 c = map_of A0 c"
      using IH X' A' by simp
    have keys1: "map fst X1 = map fst X0 \<and> map fst A1 = map fst A0"
      using keys IH by simp
    have all: "\<forall>c \<in> set (col # cols). \<exists>s t. map_of X0 c = Some s \<and> map_of X1 c = Some (fill_train s)
              \<and> (isnull_any s \<longrightarrow> map_of A0 c = Some t \<and> map_of A1 c = Some (fill_with s t))
              \<and> (\<not> isnull_any s \<longrightarrow> map_of A1 c = map_of A0 c)"
    proof
      fix c assume "c \<in> set (col # cols)"
      then consider "c = col" | "c \<in> set cols" "c \<noteq> col" by auto
      then show "\<exists>s t. map_of X0 c = Some s \<and> map_of X1 c = Some (fill_train s)
              \<and> (isnull_any s \<longrightarrow> map_of A0 c = Some t \<and> map_of A1 c = Some (fill_with s t))
              \<and> (\<not> isnull_any s \<longrightarrow> map_of A1 c = map_of A0 c)"
      proof cases
        case 1
        then show ?thesis using here s t True by auto
      next
        case 2
        then show ?thesis using others by blast
      qed
    qed
    show ?thesis
      using keys1 rest all by blast
  qed
qed

lemma impute_training_part:
  "impute cols X0 A pr = Inr (X1, A1, p1) \<Longrightarrow> impute cols X0 B pr = Inr (X2, B2, p2)
     \<Longrightarrow> X1 = X2 \<and> p1 = p2"
proof (induction cols arbitrary: X0 A B pr)
  case Nil
  then show ?case by simp
next
  case (Cons col cols)
  then show ?case
    by (auto split: option.splits if_splits simp: Let_def)
qed

lemma impute_total:
  "set cols \<subseteq> fst ` set X0 \<Longrightarrow> set cols \<subseteq> fst ` set A \<Longrightarrow> \<exists>r. impute cols X0 A pr = Inr r"
proof (induction cols arbitrary: X0 A pr)
  case Nil
  then show ?case by simp
next
  case (Cons col cols)
  from Cons.prems obtain s where s: "map_of X0 col = Some s"
    by (metis domD dom_map_of_conv_image_fst insert_subset list.simps(15))
  from Cons.prems obtain t where t: "map_of A col = Some t"
    by (metis domD dom_map_of_conv_image_fst insert_subset list.simps(15))
  show ?case
  proof (cases "isnull_any s")
    case True
    have "set cols \<subseteq> fst ` set (AList.update col (fillna (series_mean s) s) X0)"
      using Cons.prems(1) by (auto simp: dom_update)
    moreover have "set cols \<subseteq> fst ` set (AList.update col (fillna (series_mean s) t) A)"
      using Cons.prems(2) by (auto simp: dom_update)
    ultimately show ?thesis using s t True Cons.IH by (simp add: Let_def)
  next
    case False
    then show ?thesis using s Cons by simp
  qed
qed

lemma shape_update:
  "map_of al k = Some s \<Longrightarrow> length v = length s \<Longrightarrow> shape (AList.update k v al) = shape al"
  by (induction al) (auto simp: shape_def)

lemma n_rows_shape: "shape A = shape B \<Longrightarrow> n_rows A = n_rows B"
  by (cases A; cases B) (auto simp: shape_def n_rows_def)

lemma shape_names: "shape A = shape B \<Longrightarrow> map fst A = map fst B"
proof -
  have "map fst (shape df) = map fst df" for df
    by (induction df) (auto simp: shape_def)
  then show "shape A = shape B \<Longrightarrow> map fst A = map fst B" by metis
qed

lemma shape_length: "shape A = shape B \<Longrightarrow> length A = length B"
  by (metis length_map shape_def)

lemma impute_shape:
  "impute cols X0 A0 pr = Inr (X1, A1, pr1) \<Longrightarrow> shape X1 = shape X0 \<and> shape A1 = shape A0"
proof (induction cols arbitrary: X0 A0 pr)
  case Nil
  then show ?case by simp
next
  case (Cons col cols)
  from Cons.prems obtain s where s: "map_of X0 col = Some s"
    by (auto split: option.splits)
  show ?case
  proof (cases "isnull_any s")
    case False
    with Cons s show ?thesis by simp
  next
    case True
    with Cons.prems s obtain t where t: "map_of A0 col = Some t"
      by (auto split: option.splits simp: Let_def)
    from Cons.prems s t True
    have "impute cols (AList.update col (fillna (series_mean s) s) X0)
            (AList.update col (fillna (series_mean s) t) A0) (pr @ [(col, series_mean s)])
          = Inr (X1, A1, pr1)"
      by (simp add: Let_def)
    from Cons.IH[OF this] s t show ?thesis by (simp add: shape_update)
  qed
qed

subsection \<open>The preparation\<close>

lemma prepare_Inr:
  assumes "prepare df = Inr p"
  shows "\<exists>X0 target A0.
           split_master df = Inr (feature_cols p, X0, target, A0)
         \<and> impute (feature_cols p) X0 A0 [] = Inr (X p, X_2025 p, printed_means p)
         \<and> StandardScaler_fit (X p) = Inr (fitted_scaler p)
         \<and> y p = target
         \<and> warning p = (frame_isnull_sum (X p) > 0 \<or> frame_isnull_sum (X_2025 p) > 0)
         \<and> map fst (X_scaled_df p) = feature_cols p
         \<and> map fst (X_2025_scaled_df p) = feature_cols p"
proof -
  from assms obtain cols X0 target A0 X1 A1 pr sc Xs As Xdf Adf where
    s: "split_master df = Inr (cols, X0, target, A0)" and
    i: "impute cols X0 A0 [] = Inr (X1, A1, pr)" and
    f: "StandardScaler_fit X1 = Inr sc" and
    d: "DataFrame Xs cols = Inr Xdf" "DataFrame As cols = Inr Adf" and
    p: "p = \<lparr> feature_cols = cols, X = X1, y = target, X_2025 = A1,
             printed_means = pr,
             warning = (frame_isnull_sum X1 > 0 \<or> frame_isnull_sum A1 > 0),
             fitted_scaler = sc, X_scaled_df = Xdf, X_2025_scaled_df = Adf \<rparr>"
    unfolding prepare_def by (auto simp: and_then_Inr_iff)
  from d have "map fst Xdf = cols" "map fst Adf = cols"
    by (auto simp: DataFrame_def split: if_splits)
  with s i f p show ?thesis by simp
qed

lemma prepare_total:
  assumes s: "split_master df = Inr (cols, X0, target, A0)"
      and x: "n_rows X0 \<noteq> 0" and a: "n_rows A0 \<noteq> 0"
  shows "\<exists>p. prepare df = Inr p"
proof -
  from split_master_total[of df] s have names: "map fst X0 = cols" "map fst A0 = cols"
    by auto
  then have sub: "set cols \<subseteq> fst ` set X0" "set cols \<subseteq> fst ` set A0"
    by (metis image_set order_refl)+
  from impute_total[OF sub, of "[]"] obtain X1 A1 pr where
    i: "impute cols X0 A0 [] = Inr (X1, A1, pr)" by (metis prod_cases3)
  from impute_shape[OF i] have sh: "shape X1 = shape X0" "shape A1 = shape A0" by simp_all
  have nx: "n_rows X1 \<noteq> 0" "n_rows A1 \<noteq> 0"
    using x a n_rows_shape[OF sh(1)] n_rows_shape[OF sh(2)] by simp_all
  then have ne: "X1 \<noteq> []" "A1 \<noteq> []" by (auto simp: n_rows_def)
  have len: "length X1 = length cols" "length A1 = length cols"
    using shape_length[OF sh(1)] shape_length[OF sh(2)] names by (metis length_map)+
  show ?thesis
    using s i nx ne len
    by (simp add: prepare_def StandardScaler_fit_def StandardScaler_transform_def DataFrame_def)
qed

lemma prepared_columns:
  assumes s: "split_master df = Inr (cols, X0, target, A0)"
      and p: "prepare df = Inr p"
      and c: "col \<in> set cols"
  shows "feature_cols p = cols \<and>
         (\<exists>s t. map_of X0 col = Some s \<and> map_of A0 col = Some t
            \<and> map_of (X p) col = Some (fill_train s)
            \<and> map_of (X_2025 p) col = Some (fill_with s t))"
proof -
  from prepare_Inr[OF p] s have fc: "feature_cols p = cols"
    and i: "impute cols X0 A0 [] = Inr (X p, X_2025 p, printed_means p)"
    by auto
  from split_master_total[of df] s have "map fst A0 = cols" by auto
  with c have "col \<in> fst ` set A0" by (metis image_set)
  then obtain t where t: "map_of A0 col = Some t"
    by (metis domD dom_map_of_conv_image_fst)
  from impute_columns[OF i] c obtain s' t' where
    s': "map_of X0 col = Some s'" "map_of (X p) col = Some (fill_train s')"
        "isnull_any s' \<longrightarrow> map_of A0 col = Some t' \<and> map_of (X_2025 p) col = Some (fill_with s' t')"
        "\<not> isnull_any s' \<longrightarrow> map_of (X_2025 p) col = map_of A0 col"
    by blast
  have "map_of (X_2025 p) col = Some (fill_with s' t)"
    using s'(3,4) t by (cases "isnull_any s'") (auto simp: fill_with_def)
  with fc s' t show ?thesis by blast
qed

lemma fitted_statistics_of_prepare:
  assumes "prepare df = Inr p"
  shows "imputation_means df = Inr (printed_means p) \<and> scaler_fitted df = Inr (fitted_scaler p)"
proof -
  from prepare_Inr[OF assms] obtain X0 target A0 where
    "split_master df = Inr (feature_cols p, X0, target, A0)"
    "impute (feature_cols p) X0 A0 [] = Inr (X p, X_2025 p, printed_means p)"
    "StandardScaler_fit (X p) = Inr (fitted_scaler p)"
    by blast
  then show ?thesis
    by (simp add: imputation_means_def scaler_fitted_def imputed_def)
qed

lemma imputed_training_part:
  assumes "training_features df1 = training_features df2"
  shows "\<exists>X1 A1 A2 pr. imputed df1 = Inr (X1, A1, pr) \<and> imputed df2 = Inr (X1, A2, pr)"
proof -
  from split_master_total[of df1] obtain X0 A0 where
    s1: "split_master df1 = Inr (feature_cols_of (df_train_of df1), X0,
            annual_yield_quintals_ha (df_train_of df1), A0)" and
    t1: "training_features df1 = Inr X0" and
    n1: "map fst X0 = feature_cols_of (df_train_of df1)" "map fst A0 = feature_cols_of (df_train_of df1)"
    unfolding training_features_def by blast
  from split_master_total[of df2] obtain X0' B0 where
    s2: "split_master df2 = Inr (feature_cols_of (df_train_of df2), X0',
            annual_yield_quintals_ha (df_train_of df2), B0)" and
    t2: "training_features df2 = Inr X0'" and
    n2: "map fst X0' = feature_cols_of (df_train_of df2)" "map fst B0 = feature_cols_of (df_train_of df2)"
    unfolding training_features_def by blast
  from assms t1 t2 have e: "X0' = X0" by simp
  define cols where "cols = feature_cols_of (df_train_of df1)"
  from e n1 n2 have c: "feature_cols_of (df_train_of df2) = cols" by (simp add: cols_def)
  have sub: "set cols \<subseteq> fst ` set X0" "set cols \<subseteq> fst ` set A0" "set cols \<subseteq> fst ` set B0"
    using n1 n2 c unfolding cols_def by (metis image_set order_refl)+
  from impute_total[OF sub(1,2), of "[]"] obtain X1 A1 pr where
    i1: "impute cols X0 A0 [] = Inr (X1, A1, pr)" by (metis prod_cases3)
  from impute_total[OF sub(1,3), of "[]"] obtain X2 B1 pr' where
    i2: "impute cols X0 B0 [] = Inr (X2, B1, pr')" by (metis prod_cases3)
  from impute_training_part[OF i1 i2] have "X2 = X1" "pr' = pr" by simp_all
  with i1 i2 s1 s2 e c show ?thesis
    by (simp add: imputed_def cols_def)
qed

lemma notebook_09_after_prepare:
  assumes "prepare df = Inr p" and "train_and_select sk models p = Inr (st, saved)"
      and "best_model st = Some (name, trained)"
  shows "notebook_09 sk models df =
           and_then (predict_2025 sk trained (X_2025_scaled_df p) (df_2025_of df))
             (\<lambda>table. Inr (p, st, saved, table))"
  using assms by (simp add: notebook_09_def)

lemma notebook_09_training_raises:
  assumes "prepare df = Inr p" and "train_and_select sk models p = Inl e"
  shows "notebook_09 sk models df = Inl e"
  using assms by (simp add: notebook_09_def)

subsection \<open>The training loop\<close>

lemma train_variant_Inr:
  assumes "train_variant sk X_df target name model st = Inr st1"
  shows "\<exists>trained row. fit sk model X_df target = Inr trained
           \<and> results st1 = results st @ [row] \<and> Model row = name
           \<and> Avg_RMSE row = mean_rmse sk X_df target model
           \<and> models_fitted st1 = models_fitted st @ [(name, trained)]
           \<and> (case mean_rmse sk X_df target model of
                 None \<Rightarrow> best_rmse st1 = best_rmse st \<and> best_model st1 = best_model st
               | Some a \<Rightarrow>
                   if less_than a (best_rmse st)
                   then best_rmse st1 = float_val a \<and> best_model st1 = Some (name, trained)
                   else best_rmse st1 = best_rmse st \<and> best_model st1 = best_model st)"
proof -
  from assms obtain mse r2s mae trained where
    mse: "cross_val_score sk model X_df target neg_mean_squared_error = Inr mse" and
    f: "fit sk model X_df target = Inr trained" and
    st1: "st1 = (let st' = st \<lparr> results := results st @ [\<lparr> Model = name,
                   Avg_RMSE = np_mean (np_sqrt (np_neg mse)), Std_RMSE = np_std (np_sqrt (np_neg mse)),
                   Avg_R2 = np_mean r2s, Std_R2 = np_std r2s,
                   Avg_MAE = np_mean (np_neg mae), Std_MAE = np_std (np_neg mae) \<rparr>],
                           models_fitted := models_fitted st @ [(name, trained)] \<rparr>
            in (case np_mean (np_sqrt (np_neg mse)) of
                      None \<Rightarrow> st'
                    | Some a \<Rightarrow>
                        if less_than a (best_rmse st)
                        then st' \<lparr> best_rmse := float_val a, best_model := Some (name, trained) \<rparr>
                        else st'))"
    unfolding train_variant_def by (auto simp: and_then_Inr_iff Let_def)
  have m: "mean_rmse sk X_df target model = np_mean (np_sqrt (np_neg mse))"
    by (simp add: mean_rmse_def mse avg_rmse_of_def)
  show ?thesis
    unfolding m using f st1
    by (cases "np_mean (np_sqrt (np_neg mse))") (simp_all add: Let_def)
qed

lemma train_loop_best:
  assumes "train_loop sk X_df target models st0 = Inr st"
  shows "(best_rmse st = best_rmse st0 \<and> best_model st = best_model st0
            \<and> (\<forall>(n, m) \<in> set models. \<forall>b. mean_rmse sk X_df target m = Some b
                  \<longrightarrow> \<not> less_than b (best_rmse st0)))
       \<or> (\<exists>pre name m post a trained.
             models = pre @ (name, m) # post
           \<and> mean_rmse sk X_df target m = Some a
           \<and> fit sk m X_df target = Inr trained
           \<and> best_rmse st = float_val a \<and> best_model st = Some (name, trained)
           \<and> less_than a (best_rmse st0)
           \<and> (\<forall>(n', m') \<in> set pre. \<forall>b. mean_rmse sk X_df target m' = Some b \<longrightarrow> a < b)
           \<and> (\<forall>(n', m') \<in> set post. \<forall>b. mean_rmse sk X_df target m' = Some b \<longrightarrow> a \<le> b))"
  using assms
proof (induction models arbitrary: st0)
  case Nil
  then show ?case by simp
next
  case (Cons nm rest)
  obtain name model where nm: "nm = (name, model)" by (cases nm)
  from Cons.prems nm obtain st1 where
    v: "train_variant sk X_df target name model st0 = Inr st1" and
    l: "train_loop sk X_df target rest st1 = Inr st"
    by (auto simp: and_then_Inr_iff)
  from train_variant_Inr[OF v] obtain trained where
    f: "fit sk model X_df target = Inr trained" and
    c: "case mean_rmse sk X_df target model of
                 None \<Rightarrow> best_rmse st1 = best_rmse st0 \<and> best_model st1 = best_model st0
               | Some a \<Rightarrow>
                   if less_than a (best_rmse st0)
                   then best_rmse st1 = float_val a \<and> best_model st1 = Some (name, trained)
                   else best_rmse st1 = best_rmse st0 \<and> best_model st1 = best_model st0"
    by blast
  note IH = Cons.IH[OF l]
  show ?case
  proof (cases "\<exists>a. mean_rmse sk X_df target model = Some a \<and> less_than a (best_rmse st0)")
    case True
    then obtain a where a: "mean_rmse sk X_df target model = Some a" "less_than a (best_rmse st0)"
      by blast
    with c have st1: "best_rmse st1 = float_val a" "best_model st1 = Some (name, trained)" by simp_all
    from IH show ?thesis
    proof (elim disjE exE conjE)
      assume u: "best_rmse st = best_rmse st1" "best_model st = best_model st1"
        and r: "\<forall>(n, m) \<in> set rest. \<forall>b. mean_rmse sk X_df target m = Some b
                  \<longrightarrow> \<not> less_than b (best_rmse st1)"
      have "nm # rest = [] @ (name, model) # rest" by (simp add: nm)
      moreover have "\<forall>(n', m') \<in> set rest. \<forall>b. mean_rmse sk X_df target m' = Some b \<longrightarrow> a \<le> b"
        using r st1 by fastforce
      ultimately show ?thesis using a f u st1 by (intro disjI2) force
    next
      fix pre name' m' post a' trained'
      assume d: "rest = pre @ (name', m') # post"
        and m': "mean_rmse sk X_df target m' = Some a'"
        and f': "fit sk m' X_df target = Inr trained'"
        and b': "best_rmse st = float_val a'" "best_model st = Some (name', trained')"
        and lt: "less_than a' (best_rmse st1)"
        and pre: "\<forall>(n', m') \<in> set pre. \<forall>b. mean_rmse sk X_df target m' = Some b \<longrightarrow> a' < b"
        and post: "\<forall>(n', m') \<in> set post. \<forall>b. mean_rmse sk X_df target m' = Some b \<longrightarrow> a' \<le> b"
      from lt st1 have "a' < a" by simp
      have d': "nm # rest = (nm # pre) @ (name', m') # post" by (simp add: d)
      have lt0: "less_than a' (best_rmse st0)"
        using a(2) \<open>a' < a\<close> by (cases "best_rmse st0") simp_all
      have pre': "\<forall>(n', m') \<in> set (nm # pre). \<forall>b. mean_rmse sk X_df target m' = Some b \<longrightarrow> a' < b"
        using pre a(1) \<open>a' < a\<close> nm by auto
      show ?thesis
        using d' m' f' b' lt0 pre' post by (intro disjI2) blast
    qed
  next
    case False
    with c have st1: "best_rmse st1 = best_rmse st0" "best_model st1 = best_model st0"
      by (auto split: option.splits)
    from IH show ?thesis
    proof (elim disjE exE conjE)
      assume u: "best_rmse st = best_rmse st1" "best_model st = best_model st1"
        and r: "\<forall>(n, m) \<in> set rest. \<forall>b. mean_rmse sk X_df target m = Some b
                  \<longrightarrow> \<not> less_than b (best_rmse st1)"
      show ?thesis using u r st1 False nm by (intro disjI1) auto
    next
      fix pre name' m' post a' trained'
      assume d: "rest = pre @ (name', m') # post"
        and m': "mean_rmse sk X_df target m' = Some a'"
        and f': "fit sk m' X_df target = Inr trained'"
        and b': "best_rmse st = float_val a'" "best_model st = Some (name', trained')"
        and lt: "less_than a' (best_rmse st1)"
        and pre: "\<forall>(n', m') \<in> set pre. \<forall>b. mean_rmse sk X_df target m' = Some b \<longrightarrow> a' < b"
        and post: "\<forall>(n', m') \<in> set post. \<forall>b. mean_rmse sk X_df target m' = Some b \<longrightarrow> a' \<le> b"
      have d': "nm # rest = (nm # pre) @ (name', m') # post" by (simp add: d)
      have lt0: "less_than a' (best_rmse st0)" using lt st1 by simp
      have "\<forall>b. mean_rmse sk X_df target model = Some b \<longrightarrow> a' < b"
        using False lt0 by (cases "best_rmse st0") auto
      then have pre': "\<forall>(n', m') \<in> set (nm # pre). \<forall>b. mean_rmse sk X_df target m' = Some b \<longrightarrow> a' < b"
        using pre nm by auto
      show ?thesis
        using d' m' f' b' lt0 pre' post by (intro disjI2) blast
    qed
  qed
qed

lemma train_variant_raises:
  "variant_raises sk X_df target model \<Longrightarrow> \<exists>e. train_variant sk X_df target name model st = Inl e"
  by (auto simp: variant_raises_def train_variant_def isl_def Let_def and_then_def
      split: sum.splits)

lemma train_loop_raises:
  assumes "(name, model) \<in> set models" and "variant_raises sk X_df target model"
  shows "\<exists>e. train_loop sk X_df target models st = Inl e"
  using assms
proof (induction models arbitrary: st)
  case Nil
  then show ?case by simp
next
  case (Cons nm rest)
  obtain n m where nm: "nm = (n, m)" by (cases nm)
  show ?case
  proof (cases "train_variant sk X_df target n m st")
    case (Inl e)
    then show ?thesis by (simp add: nm)
  next
    case (Inr st1)
    with train_variant_raises[of sk X_df target m n st] have "\<not> variant_raises sk X_df target m"
      by auto
    with Cons.prems nm have "(name, model) \<in> set rest" by auto
    from Cons.IH[OF this Cons.prems(2)] Inr show ?thesis by (simp add: nm)
  qed
qed

lemma train_loop_fitted:
  assumes "train_loop sk X_df target models st0 = Inr st"
  shows "\<exists>fs. models_fitted st = models_fitted st0 @ fs
           \<and> list_all2 (\<lambda>(name, model) (name', trained).
                 name' = name \<and> fit sk model X_df target = Inr trained) models fs"
  using assms
proof (induction models arbitrary: st0)
  case Nil
  then show ?case by simp
next
  case (Cons nm rest)
  obtain name model where nm: "nm = (name, model)" by (cases nm)
  from Cons.prems nm obtain st1 where
    v: "train_variant sk X_df target name model st0 = Inr st1" and
    l: "train_loop sk X_df target rest st1 = Inr st"
    by (auto simp: and_then_Inr_iff)
  from train_variant_Inr[OF v] obtain trained where
    f: "fit sk model X_df target = Inr trained" and
    m: "models_fitted st1 = models_fitted st0 @ [(name, trained)]"
    by blast
  from Cons.IH[OF l] obtain fs where
    fs: "models_fitted st = models_fitted st1 @ fs"
        "list_all2 (\<lambda>(name, model) (name', trained).
                 name' = name \<and> fit sk model X_df target = Inr trained) rest fs"
    by blast
  have "models_fitted st = models_fitted st0 @ ((name, trained) # fs)"
    using fs(1) m by simp
  moreover have "list_all2 (\<lambda>(name, model) (name', trained).
                 name' = name \<and> fit sk model X_df target = Inr trained) (nm # rest) ((name, trained) # fs)"
    using fs(2) f nm by simp
  ultimately show ?case by blast
qed

lemma train_and_select_Inr:
  assumes "train_and_select sk models p = Inr (st, saved)"
  shows "train_loop sk (X_scaled_df p) (y p) models initial_selection = Inr st
       \<and> (\<exists>name. best_model st = Some (name, best_yield_prediction_model saved))
       \<and> feature_scaler saved = fitted_scaler p \<and> feature_columns saved = feature_cols p"
  using assms unfolding train_and_select_def
  by (auto simp: and_then_Inr_iff split: option.splits if_splits)

lemma fitted_unique:
  assumes "list_all2 (\<lambda>(name, model) (name', trained).
                 name' = name \<and> f model = Inr trained) models fs"
      and "list_all2 (\<lambda>(name, model) (name', trained).
                 name' = name \<and> f model = Inr trained) models fs'"
  shows "fs = fs'"
  using assms
proof (induction models arbitrary: fs fs')
  case Nil
  then show ?case by simp
next
  case (Cons a models)
  then show ?case by (auto simp: list_all2_Cons1)
qed

subsection \<open>Notebook 05: the guarded block and the cell\<close>

lemma series_mean_map_Some:
  "vs \<noteq> [] \<Longrightarrow> series_mean (map Some vs) = Some (sum_list vs / real (length vs))"
proof -
  have "present (map Some vs) = vs"
    by (induction vs) (simp_all add: present_def)
  then show "vs \<noteq> [] \<Longrightarrow> ?thesis" by (simp add: series_mean_def)
qed

lemma filter_eq_singleton:
  "distinct xs \<Longrightarrow> x \<in> set xs \<Longrightarrow> filter (\<lambda>k. k = x) xs = [x]"
  by (induction xs) (auto simp: filter_empty_conv)

lemma named_rows_group:
  assumes "m wid = Some name"
  shows "map f (filter (\<lambda>r. group_key r = (wid, name, yr, mo)) (named_rows m df))
       = map (\<lambda>r. f \<lparr> woreda_id_vi = woreda_id_vi r, year_vi = year_vi r, month_vi = month_vi r,
                avg_ndvi = avg_ndvi r, avg_savi = avg_savi r,
                woreda_name_vi = m (woreda_id_vi r) \<rparr>) (rows_of wid yr mo df)"
  using assms
  by (induction df)
     (auto simp: named_rows_def dropna_woreda_name_def map_woreda_name_def rows_of_def group_key_def)

lemma named_rows_keys:
  "k \<in> set (map group_key (named_rows m df)) \<longleftrightarrow>
     (\<exists>r \<in> set df. \<exists>name. m (woreda_id_vi r) = Some name \<and> k = (woreda_id_vi r, name, year_vi r, month_vi r))"
  by (induction df)
     (auto simp: named_rows_def dropna_woreda_name_def map_woreda_name_def group_key_def)

lemma named_rows_mapped_only:
  "named_rows m (filter (\<lambda>r. m (woreda_id_vi r) \<noteq> None) df) = named_rows m df"
  by (induction df)
     (auto simp: named_rows_def dropna_woreda_name_def map_woreda_name_def)

lemma aggregate_vi_alt:
  "aggregate_vi m df =
     sort_values (map (\<lambda>(wid, name, yr, mo).
                let g = filter (\<lambda>r. group_key r = (wid, name, yr, mo)) (named_rows m df)
                in \<lparr> woreda_id_vi = wid, year_vi = yr, month_vi = mo,
                     avg_ndvi = series_mean (map avg_ndvi g),
                     avg_savi = series_mean (map avg_savi g),
                     woreda_name_vi = Some name \<rparr>) (sort (remdups (map group_key (named_rows m df)))))"
  by (simp add: aggregate_vi_def groupby_mean_def named_rows_def Let_def)

lemma aggregate_one_row:
  assumes m: "m wid = Some name" and ne: "rows_of wid yr mo df \<noteq> []"
  shows "rows_of wid yr mo (aggregate_vi m df) =
           [\<lparr> woreda_id_vi = wid, year_vi = yr, month_vi = mo,
              avg_ndvi = series_mean (map avg_ndvi (rows_of wid yr mo df)),
              avg_savi = series_mean (map avg_savi (rows_of wid yr mo df)),
              woreda_name_vi = Some name \<rparr>]"
proof -
  let ?keys = "sort (remdups (map group_key (named_rows m df)))"
  let ?K = "(wid, name, yr, mo)"
  from ne obtain r where r: "r \<in> set df" "woreda_id_vi r = wid" "year_vi r = yr" "month_vi r = mo"
    by (auto simp: rows_of_def filter_empty_conv)
  with m have "?K \<in> set (map group_key (named_rows m df))"
    unfolding named_rows_keys by blast
  then have K: "?K \<in> set ?keys" by simp
  have d: "distinct ?keys" by simp
  have sel: "filter (\<lambda>k. case k of (w, n, y', m') \<Rightarrow> w = wid \<and> y' = yr \<and> m' = mo) ?keys = [?K]"
  proof -
    have "filter (\<lambda>k. case k of (w, n, y', m') \<Rightarrow> w = wid \<and> y' = yr \<and> m' = mo) ?keys
        = filter (\<lambda>k. k = ?K) ?keys"
    proof (rule filter_cong[OF refl])
      fix k assume "k \<in> set ?keys"
      then have "k \<in> set (map group_key (named_rows m df))" by simp
      then obtain r' :: vi_row and nm where "m (woreda_id_vi r') = Some nm"
          "k = (woreda_id_vi r', nm, year_vi r', month_vi r')"
        unfolding named_rows_keys by blast
      with m show "(case k of (w, n, y', m') \<Rightarrow> w = wid \<and> y' = yr \<and> m' = mo) = (k = ?K)"
        by auto
    qed
    also have "\<dots> = [?K]" using d K by (rule filter_eq_singleton)
    finally show ?thesis .
  qed
  define mk where "mk = (\<lambda>(wid, name, yr, mo).
                let g = filter (\<lambda>r. group_key r = (wid, name, yr, mo)) (named_rows m df)
                in \<lparr> woreda_id_vi = wid, year_vi = yr, month_vi = mo,
                     avg_ndvi = series_mean (map avg_ndvi g),
                     avg_savi = series_mean (map avg_savi g),
                     woreda_name_vi = Some name \<rparr>)"
  define P :: "vi_named_row \<Rightarrow> bool"
    where "P = (\<lambda>r. woreda_id_vi r = wid \<and> year_vi r = yr \<and> month_vi r = mo)"
  have pm: "P \<circ> mk = (\<lambda>k. case k of (w, n, y', m') \<Rightarrow> w = wid \<and> y' = yr \<and> m' = mo)"
    by (auto simp: P_def mk_def fun_eq_iff Let_def)
  have "rows_of wid yr mo (aggregate_vi m df)
        = sort_key (\<lambda>r. (woreda_id_vi r, year_vi r, month_vi r)) (filter P (map mk ?keys))"
    by (simp only: aggregate_vi_alt sort_values_def rows_of_def filter_sort mk_def P_def)
  also have "filter P (map mk ?keys) = map mk (filter (P \<circ> mk) ?keys)"
    by (simp only: filter_map)
  also have "\<dots> = [mk ?K]"
    by (simp only: pm sel list.map)
  also have "sort_key (\<lambda>r. (woreda_id_vi r, year_vi r, month_vi r)) [mk ?K] = [mk ?K]"
    by simp
  also have "mk ?K = \<lparr> woreda_id_vi = wid, year_vi = yr, month_vi = mo,
              avg_ndvi = series_mean (map avg_ndvi (rows_of wid yr mo df)),
              avg_savi = series_mean (map avg_savi (rows_of wid yr mo df)),
              woreda_name_vi = Some name \<rparr>"
    using named_rows_group[of m wid name avg_ndvi yr mo df, OF m]
      named_rows_group[of m wid name avg_savi yr mo df, OF m]
    by (simp add: mk_def Let_def)
  finally show ?thesis .
qed

lemma aggregate_names:
  assumes "r \<in> set (aggregate_vi m df)"
  shows "woreda_name_vi r = m (woreda_id_vi r) \<and> m (woreda_id_vi r) \<noteq> None"
proof -
  from assms obtain k where k: "k \<in> set (map group_key (named_rows m df))"
    and r: "woreda_id_vi r = fst k" "woreda_name_vi r = Some (fst (snd k))"
    unfolding aggregate_vi_alt sort_values_def by (fastforce simp: Let_def)
  from k obtain r' :: vi_row and nm where "m (woreda_id_vi r') = Some nm"
          "k = (woreda_id_vi r', nm, year_vi r', month_vi r')"
    unfolding named_rows_keys by blast
  with r show ?thesis by simp
qed

lemma aggregate_mapped_only:
  "aggregate_vi m (filter (\<lambda>r. m (woreda_id_vi r) \<noteq> None) df) = aggregate_vi m df"
  by (simp only: aggregate_vi_alt named_rows_mapped_only)


lemma load_woredas_unbound: "load_woredas read_file = (None, None)"
  by (simp add: load_woredas_def global_name_def notebook_05_globals_def)

lemma notebook_05_writes_nothing: "notebook_05 read_file all_vi_data = Inr None"
  by (simp add: notebook_05_def load_woredas_unbound)

subsection \<open>The examples, evaluated\<close>

lemma split_example:
  "split_master example_master =
     Inr ([''ndvi_mean'', ''rain_sum''],
          [(''ndvi_mean'', [Some 1, Some 3]), (''rain_sum'', [None, Some 4])],
          [Some 10, Some 12],
          [(''ndvi_mean'', [None, Some 2]), (''rain_sum'', [None, Some 6])])"
  by (simp add: split_master_def example_master_def df_train_of_def df_2025_of_def take_rows_def
      boolean_mask_def feature_cols_of_def Let_def)

lemma impute_example:
  "impute [''ndvi_mean'', ''rain_sum'']
          [(''ndvi_mean'', [Some 1, Some 3]), (''rain_sum'', [None, Some 4])]
          [(''ndvi_mean'', [None, Some 2]), (''rain_sum'', [None, Some 6])] [] =
   Inr ([(''ndvi_mean'', [Some 1, Some 3]), (''rain_sum'', [Some 4, Some 4])],
        [(''ndvi_mean'', [None, Some 2]), (''rain_sum'', [Some 4, Some 6])],
        [(''rain_sum'', Some 4)])"
  by (simp add: series_mean_def fillna_def Let_def)

lemma prepare_example: "prepare example_master = Inr example_prepared"
  by (simp add: prepare_def split_example impute_example StandardScaler_fit_def
      StandardScaler_transform_def n_rows_def series_mean_def series_var_def handle_zeros_in_scale_def
      standardize_def DataFrame_def frame_isnull_sum_def example_prepared_def power2_eq_square
      del: impute.simps)

lemma n_rows_example:
  "n_rows [(''ndvi_mean'', [Some 1, Some 3]), (''rain_sum'', [None, Some 4])] \<noteq> 0"
  "n_rows [(''ndvi_mean'', [None, Some 2]), (''rain_sum'', [None, Some 6])] \<noteq> 0"
  by (simp_all add: n_rows_def)

lemma training_features_example:
  "training_features example_master =
     Inr [(''ndvi_mean'', [Some 1, Some 3]), (''rain_sum'', [None, Some 4])]"
  "training_features example_master_b =
     Inr [(''ndvi_mean'', [Some 1, Some 3]), (''rain_sum'', [None, Some 4])]"
  by (simp_all add: training_features_def example_master_def example_master_b_def df_train_of_def
      take_rows_def boolean_mask_def feature_cols_of_def)

lemma example_mean_rmse:
  "mean_rmse example_estimators X_df target 1 = Some 2"
  "mean_rmse example_estimators X_df target 2 = Some 1"
  "mean_rmse example_estimators X_df target 3 = Some 1"
  "mean_rmse example_estimators X_df target 4 = None"
  by (simp_all add: mean_rmse_def example_estimators_def example_scores_def avg_rmse_of_def
      np_mean_def np_sqrt_def np_neg_def)

lemma train_example:
  "train_and_select example_estimators example_models example_prepared
     = Inr (example_selection, example_artifacts)"
  by (simp add: train_and_select_def example_models_def train_variant_def example_estimators_def
      example_scores_def np_mean_def np_std_def np_sqrt_def np_neg_def initial_selection_def
      example_selection_def example_artifacts_def example_prepared_def Let_def)

lemma train_failing_example:
  "train_and_select failing_estimators example_models example_prepared
     = Inl (ValueError ''did not converge'')"
  by (simp add: train_and_select_def example_models_def train_variant_def failing_estimators_def
      example_scores_def np_mean_def np_std_def np_sqrt_def np_neg_def initial_selection_def
      Let_def)

lemma train_constant_example:
  "\<exists>st saved. train_and_select constant_score_estimators example_models example_prepared = Inr (st, saved)
      \<and> best_model st = Some (''Random Forest'', 11)"
  by (simp add: train_and_select_def example_models_def train_variant_def constant_score_estimators_def
      np_mean_def np_std_def np_sqrt_def np_neg_def initial_selection_def Let_def)

lemma predict_example:
  "predict_2025 example_estimators 12 (X_2025_scaled_df example_prepared) (df_2025_of example_master)
     = Inr [(''W01'', ''Bensa'', 2025, 0), (''W02'', ''Aroresa'', 2025, 5/2)]"
  by (simp add: predict_2025_def example_estimators_def df_2025_of_def example_master_def
      take_rows_def boolean_mask_def clamp_predictions_def max0_def)

lemma split_example_c:
  "split_master example_master_c =
     Inr ([''ndvi_mean'', ''rain_sum''],
          [(''ndvi_mean'', [Some 1, Some 1, Some 1, Some 1, Some 3, Some 3, Some 3, Some 3]),
           (''rain_sum'', [None, Some 4, Some 4, Some 4, Some 4, Some 4, Some 4, Some 4])],
          [Some 10, Some 12, Some 9, Some 11, Some 8, Some 13, Some 10, Some 12],
          [(''ndvi_mean'', [None, Some 2]), (''rain_sum'', [None, Some 6])])"
  by (simp add: split_master_def example_master_c_def df_train_of_def df_2025_of_def take_rows_def
      boolean_mask_def feature_cols_of_def Let_def)

lemma impute_example_c:
  "impute [''ndvi_mean'', ''rain_sum'']
          [(''ndvi_mean'', [Some 1, Some 1, Some 1, Some 1, Some 3, Some 3, Some 3, Some 3]),
           (''rain_sum'', [None, Some 4, Some 4, Some 4, Some 4, Some 4, Some 4, Some 4])]
          [(''ndvi_mean'', [None, Some 2]), (''rain_sum'', [None, Some 6])] [] =
   Inr ([(''ndvi_mean'', [Some 1, Some 1, Some 1, Some 1, Some 3, Some 3, Some 3, Some 3]),
         (''rain_sum'', [Some 4, Some 4, Some 4, Some 4, Some 4, Some 4, Some 4, Some 4])],
        [(''ndvi_mean'', [None, Some 2]), (''rain_sum'', [Some 4, Some 6])],
        [(''rain_sum'', Some 4)])"
  by (simp add: series_mean_def fillna_def Let_def)

lemma prepare_example_c: "prepare example_master_c = Inr example_prepared_c"
  by (simp add: prepare_def split_example_c impute_example_c StandardScaler_fit_def
      StandardScaler_transform_def n_rows_def series_mean_def series_var_def handle_zeros_in_scale_def
      standardize_def DataFrame_def frame_isnull_sum_def example_prepared_c_def power2_eq_square
      del: impute.simps)

lemma n_rows_example_c:
  "n_rows [(''ndvi_mean'', [Some 1, Some 1, Some 1, Some 1, Some 3, Some 3, Some 3, Some 3]),
           (''rain_sum'', [None, Some 4, Some 4, Some 4, Some 4, Some 4, Some 4, Some 4])] \<noteq> 0"
  "n_rows [(''ndvi_mean'', [None, Some 2]), (''rain_sum'', [None, Some 6])] \<noteq> 0"
  by (simp_all add: n_rows_def)

lemma train_example_c:
  "train_and_select kfold_estimators example_models example_prepared_c
     = Inr (example_selection, example_artifacts)"
  by (simp add: train_and_select_def example_models_def train_variant_def kfold_estimators_def
      example_scores_def np_mean_def np_std_def np_sqrt_def np_neg_def initial_selection_def
      example_selection_def example_artifacts_def example_prepared_c_def Let_def n_rows_def
      frame_isnull_sum_def)

lemma to_dict_example:
  "to_dict (gdf_rows example_gdf) ''W01'' = Some ''Bensa''"
  "to_dict (gdf_rows example_gdf) ''W02'' = Some ''Aroresa''"
  "to_dict (gdf_rows example_gdf) ''W99'' = None"
  by (simp_all add: to_dict_def example_gdf_def)

lemma concat_example_files:
  "concat example_files =
     [ \<lparr> woreda_id_vi = ''W01'', year_vi = 2020, month_vi = 6, avg_ndvi = Some (1/5), avg_savi = Some 1 \<rparr>,
       \<lparr> woreda_id_vi = ''W99'', year_vi = 2020, month_vi = 6, avg_ndvi = Some 7, avg_savi = Some 7 \<rparr>,
       \<lparr> woreda_id_vi = ''W01'', year_vi = 2020, month_vi = 6, avg_ndvi = Some (3/5), avg_savi = Some 3 \<rparr> ]"
  by (simp add: example_files_def)

section \<open>The claims\<close>

subsection \<open>Notebook 09: preparation\<close>

text \<open>
  C1. Two master tables whose training rows have the same feature columns get the same
  imputation means and the same scaler (mean, variance and scale of every column),
  however their 2025 rows differ; and these are the means and the scaler that the
  preparation of the notebook ends with.
\<close>

theorem no_leakage_from_the_2025_rows:
  assumes "training_features df1 = training_features df2"
  shows "imputation_means df1 = imputation_means df2
       \<and> scaler_fitted df1 = scaler_fitted df2
       \<and> (\<forall>p1 p2. prepare df1 = Inr p1 \<longrightarrow> prepare df2 = Inr p2 \<longrightarrow>
             imputation_means df1 = Inr (printed_means p1)
           \<and> scaler_fitted df1 = Inr (fitted_scaler p1)
           \<and> printed_means p1 = printed_means p2
           \<and> fitted_scaler p1 = fitted_scaler p2)"
proof -
  from imputed_training_part[OF assms] obtain X1 A1 A2 pr where
    "imputed df1 = Inr (X1, A1, pr)" "imputed df2 = Inr (X1, A2, pr)" by blast
  then have e: "imputation_means df1 = imputation_means df2" "scaler_fitted df1 = scaler_fitted df2"
    by (simp_all add: imputation_means_def scaler_fitted_def)
  have "imputation_means df1 = Inr (printed_means p1)
           \<and> scaler_fitted df1 = Inr (fitted_scaler p1)
           \<and> printed_means p1 = printed_means p2
           \<and> fitted_scaler p1 = fitted_scaler p2"
    if "prepare df1 = Inr p1" "prepare df2 = Inr p2" for p1 p2
    using fitted_statistics_of_prepare[OF that(1)] fitted_statistics_of_prepare[OF that(2)] e
    by simp
  with e show ?thesis by blast
qed

theorem no_leakage_from_the_2025_rows_witness:
  "imputation_means example_master = imputation_means example_master_b
   \<and> scaler_fitted example_master = scaler_fitted example_master_b
   \<and> imputation_means example_master = Inr [(''rain_sum'', Some 4)]
   \<and> scaler_fitted example_master =
       Inr \<lparr> scaler_mean = [Some 2, Some 4], scaler_var = [Some 1, Some 0],
             scaler_scale = [Some 1, Some 1] \<rparr>
   \<and> other (df_2025_of example_master) \<noteq> other (df_2025_of example_master_b)"
proof -
  have h: "training_features example_master = training_features example_master_b"
    by (simp add: training_features_example)
  note t = no_leakage_from_the_2025_rows[OF h]
  have p: "imputation_means example_master = Inr (printed_means example_prepared)
         \<and> scaler_fitted example_master = Inr (fitted_scaler example_prepared)"
    using fitted_statistics_of_prepare[OF prepare_example] .
  have d: "other (df_2025_of example_master) \<noteq> other (df_2025_of example_master_b)"
    by (simp add: df_2025_of_def example_master_def example_master_b_def take_rows_def boolean_mask_def)
  from t p d show ?thesis by (simp add: example_prepared_def)
qed

text \<open>
  C4 as stated fails: in the example the column ndvi_mean is complete in the eight training
  rows and missing in one 2025 row; after the preparation the value is still missing and the
  warning is set, and the training section runs on the prepared data all the same, up to
  the selection and the saved artifacts.
\<close>

theorem imputation_postcondition_counterexample:
  "prepare example_master_c = Inr example_prepared_c
   \<and> map_of (X_2025 example_prepared_c) ''ndvi_mean'' = Some [None, Some 2]
   \<and> warning example_prepared_c
   \<and> train_and_select kfold_estimators example_models example_prepared_c
       = Inr (example_selection, example_artifacts)"
  using prepare_example_c train_example_c by (simp add: example_prepared_c_def)

text \<open>
  C4, as the code has it. With at least one training row and one 2025 row the preparation
  returns. Every feature column with a value present among the training rows has no
  missing value left in the training population, and none in the 2025 population either
  when the training column had a missing value. Missing values that remain only set the
  warning: the notebook goes on with the training section on the scaled training frame,
  ends with its error when that section raises, and otherwise calls the prediction with
  the scaled 2025 frame as it is.
\<close>

theorem imputation_postcondition:
  assumes "split_master df_master = Inr (cols, X0, target, A0)"
      and "n_rows X0 \<noteq> 0" and "n_rows A0 \<noteq> 0"
  shows "\<exists>p. prepare df_master = Inr p
       \<and> (\<forall>col \<in> set cols. \<forall>s. map_of X0 col = Some s \<longrightarrow> series_mean s \<noteq> None \<longrightarrow>
             (\<exists>s'. map_of (X p) col = Some s' \<and> \<not> isnull_any s')
           \<and> (isnull_any s \<longrightarrow> (\<exists>t'. map_of (X_2025 p) col = Some t' \<and> \<not> isnull_any t')))
       \<and> warning p = (frame_isnull_sum (X p) > 0 \<or> frame_isnull_sum (X_2025 p) > 0)
       \<and> (\<forall>(sk :: 'm estimators) models e.
             train_and_select sk models p = Inl e \<longrightarrow> notebook_09 sk models df_master = Inl e)
       \<and> (\<forall>(sk :: 'm estimators) models st saved name trained.
             train_and_select sk models p = Inr (st, saved) \<longrightarrow> best_model st = Some (name, trained) \<longrightarrow>
             notebook_09 sk models df_master =
               and_then (predict_2025 sk trained (X_2025_scaled_df p) (df_2025_of df_master))
                 (\<lambda>table. Inr (p, st, saved, table)))"
proof -
  from prepare_total[OF assms] obtain p where p: "prepare df_master = Inr p" by blast
  from prepare_Inr[OF p]
  have w: "warning p = (frame_isnull_sum (X p) > 0 \<or> frame_isnull_sum (X_2025 p) > 0)" by auto
  have c: "(\<exists>s'. map_of (X p) col = Some s' \<and> \<not> isnull_any s')
           \<and> (isnull_any s \<longrightarrow> (\<exists>t'. map_of (X_2025 p) col = Some t' \<and> \<not> isnull_any t'))"
    if "col \<in> set cols" "map_of X0 col = Some s" "series_mean s \<noteq> None" for col s
  proof -
    from prepared_columns[OF assms(1) p that(1)] that(2) obtain t where
      "map_of (X p) col = Some (fill_train s)" "map_of (X_2025 p) col = Some (fill_with s t)"
      by auto
    with that(3) show ?thesis
      by (simp add: isnull_any_fill_train isnull_any_fill_with)
  qed
  show ?thesis
  proof (intro exI[of _ p] conjI ballI allI impI)
    show "prepare df_master = Inr p" by (rule p)
  next
    fix col s assume "col \<in> set cols" "map_of X0 col = Some s" "series_mean s \<noteq> None"
    from c[OF this]
    show "\<exists>s'. map_of (X p) col = Some s' \<and> \<not> isnull_any s'" by blast
    fix t' assume "isnull_any s"
    with c[OF \<open>col \<in> set cols\<close> \<open>map_of X0 col = Some s\<close> \<open>series_mean s \<noteq> None\<close>]
    show "\<exists>t'. map_of (X_2025 p) col = Some t' \<and> \<not> isnull_any t'" by blast
  next
    show "warning p = (frame_isnull_sum (X p) > 0 \<or> frame_isnull_sum (X_2025 p) > 0)" by (rule w)
  next
    fix sk :: "'m estimators" and models e
    assume "train_and_select sk models p = Inl e"
    with p show "notebook_09 sk models df_master = Inl e"
      by (rule notebook_09_training_raises)
  next
    fix sk :: "'m estimators" and models st saved name trained
    assume "train_and_select sk models p = Inr (st, saved)" "best_model st = Some (name, trained)"
    then show "notebook_09 sk models df_master =
               and_then (predict_2025 sk trained (X_2025_scaled_df p) (df_2025_of df_master))
                 (\<lambda>table. Inr (p, st, saved, table))"
      by (rule notebook_09_after_prepare[OF p])
  qed
qed

theorem imputation_postcondition_witness:
  "prepare example_master_c = Inr example_prepared_c
   \<and> (\<exists>s'. map_of (X example_prepared_c) ''rain_sum'' = Some s' \<and> \<not> isnull_any s')
   \<and> (\<exists>t'. map_of (X_2025 example_prepared_c) ''rain_sum'' = Some t' \<and> \<not> isnull_any t')
   \<and> warning example_prepared_c =
        (frame_isnull_sum (X example_prepared_c) > 0 \<or> frame_isnull_sum (X_2025 example_prepared_c) > 0)
   \<and> notebook_09 failing_estimators example_models example_master_c
        = Inl (ValueError ''did not converge'')
   \<and> notebook_09 kfold_estimators example_models example_master_c =
       and_then (predict_2025 kfold_estimators 12 (X_2025_scaled_df example_prepared_c)
                   (df_2025_of example_master_c))
         (\<lambda>table. Inr (example_prepared_c, example_selection, example_artifacts, table))"
proof -
  from imputation_postcondition[where ?'m = nat, OF split_example_c n_rows_example_c]
  obtain p where all: "prepare example_master_c = Inr p
       \<and> (\<forall>col \<in> set [''ndvi_mean'', ''rain_sum'']. \<forall>s.
              map_of [(''ndvi_mean'', [Some 1, Some 1, Some 1, Some 1, Some 3, Some 3, Some 3, Some 3]),
                      (''rain_sum'', [None, Some 4, Some 4, Some 4, Some 4, Some 4, Some 4, Some 4])] col = Some s
              \<longrightarrow> series_mean s \<noteq> None \<longrightarrow>
             (\<exists>s'. map_of (X p) col = Some s' \<and> \<not> isnull_any s')
           \<and> (isnull_any s \<longrightarrow> (\<exists>t'. map_of (X_2025 p) col = Some t' \<and> \<not> isnull_any t')))
       \<and> warning p = (frame_isnull_sum (X p) > 0 \<or> frame_isnull_sum (X_2025 p) > 0)
       \<and> (\<forall>(sk :: nat estimators) models e.
             train_and_select sk models p = Inl e \<longrightarrow> notebook_09 sk models example_master_c = Inl e)
       \<and> (\<forall>(sk :: nat estimators) models st saved name trained.
             train_and_select sk models p = Inr (st, saved) \<longrightarrow> best_model st = Some (name, trained) \<longrightarrow>
             notebook_09 sk models example_master_c =
               and_then (predict_2025 sk trained (X_2025_scaled_df p) (df_2025_of example_master_c))
                 (\<lambda>table. Inr (p, st, saved, table)))" ..
  then have p: "prepare example_master_c = Inr p"
    and c: "\<forall>col \<in> set [''ndvi_mean'', ''rain_sum'']. \<forall>s.
              map_of [(''ndvi_mean'', [Some 1, Some 1, Some 1, Some 1, Some 3, Some 3, Some 3, Some 3]),
                      (''rain_sum'', [None, Some 4, Some 4, Some 4, Some 4, Some 4, Some 4, Some 4])] col = Some s
              \<longrightarrow> series_mean s \<noteq> None \<longrightarrow>
             (\<exists>s'. map_of (X p) col = Some s' \<and> \<not> isnull_any s')
           \<and> (isnull_any s \<longrightarrow> (\<exists>t'. map_of (X_2025 p) col = Some t' \<and> \<not> isnull_any t'))"
    and w: "warning p = (frame_isnull_sum (X p) > 0 \<or> frame_isnull_sum (X_2025 p) > 0)"
    and tl: "\<forall>(sk :: nat estimators) models e.
             train_and_select sk models p = Inl e \<longrightarrow> notebook_09 sk models example_master_c = Inl e"
    and tr: "\<forall>(sk :: nat estimators) models st saved name trained.
             train_and_select sk models p = Inr (st, saved) \<longrightarrow> best_model st = Some (name, trained) \<longrightarrow>
             notebook_09 sk models example_master_c =
               and_then (predict_2025 sk trained (X_2025_scaled_df p) (df_2025_of example_master_c))
                 (\<lambda>table. Inr (p, st, saved, table))"
    by simp_all
  from p have e: "p = example_prepared_c" by (simp add: prepare_example_c)
  from c have cols: "(\<exists>s'. map_of (X p) ''rain_sum'' = Some s' \<and> \<not> isnull_any s')
           \<and> (\<exists>t'. map_of (X_2025 p) ''rain_sum'' = Some t' \<and> \<not> isnull_any t')"
    by (simp add: series_mean_def)
  have f: "train_and_select failing_estimators example_models example_prepared_c
             = Inl (ValueError ''did not converge'')"
    by (simp add: train_and_select_def example_models_def train_variant_def failing_estimators_def
      example_scores_def np_mean_def np_std_def np_sqrt_def np_neg_def initial_selection_def
      Let_def)
  from tl[rule_format, of failing_estimators example_models "ValueError ''did not converge''"] f e
  have n1: "notebook_09 failing_estimators example_models example_master_c
        = Inl (ValueError ''did not converge'')"
    by simp
  have b: "best_model example_selection = Some (''XGBoost'', 12)"
    by (simp add: example_selection_def)
  from tr[rule_format, of kfold_estimators example_models example_selection example_artifacts
        "''XGBoost''" 12] train_example_c b e
  have n2: "notebook_09 kfold_estimators example_models example_master_c =
       and_then (predict_2025 kfold_estimators 12 (X_2025_scaled_df example_prepared_c)
                   (df_2025_of example_master_c))
         (\<lambda>table. Inr (example_prepared_c, example_selection, example_artifacts, table))"
    by simp
  from p e cols w n1 n2 show ?thesis by simp
qed

text \<open>
  C10. With at least one training row and one 2025 row the preparation returns, and for
  every feature column: when the training column has a missing value, both the training
  column and the 2025 column are filled with the mean of the training column; when it has
  none, both columns are left as they are, so a value missing in the 2025 column stays
  missing and the warning is set. The warning does not stop anything: the frames are
  scaled, and the notebook goes on to training and prediction with them.
\<close>

theorem imputation_only_where_training_has_missing_values:
  assumes "split_master df_master = Inr (cols, X0, target, A0)"
      and "n_rows X0 \<noteq> 0" and "n_rows A0 \<noteq> 0"
  shows "\<exists>p. prepare df_master = Inr p
       \<and> (\<forall>col \<in> set cols. \<exists>s t. map_of X0 col = Some s \<and> map_of A0 col = Some t
             \<and> (if isnull_any s
                 then map_of (X p) col = Some (fillna (series_mean s) s)
                    \<and> map_of (X_2025 p) col = Some (fillna (series_mean s) t)
                 else map_of (X p) col = Some s \<and> map_of (X_2025 p) col = Some t
                    \<and> (isnull_any t \<longrightarrow> warning p)))
       \<and> warning p = (frame_isnull_sum (X p) > 0 \<or> frame_isnull_sum (X_2025 p) > 0)
       \<and> (\<forall>sk models st saved name trained.
             train_and_select sk models p = Inr (st, saved) \<longrightarrow> best_model st = Some (name, trained) \<longrightarrow>
             notebook_09 sk models df_master =
               and_then (predict_2025 sk trained (X_2025_scaled_df p) (df_2025_of df_master))
                 (\<lambda>table. Inr (p, st, saved, table)))"
proof -
  from prepare_total[OF assms] obtain p where p: "prepare df_master = Inr p" by blast
  from prepare_Inr[OF p]
  have w: "warning p = (frame_isnull_sum (X p) > 0 \<or> frame_isnull_sum (X_2025 p) > 0)" by auto
  have cols: "\<exists>s t. map_of X0 col = Some s \<and> map_of A0 col = Some t
             \<and> (if isnull_any s
                 then map_of (X p) col = Some (fillna (series_mean s) s)
                    \<and> map_of (X_2025 p) col = Some (fillna (series_mean s) t)
                 else map_of (X p) col = Some s \<and> map_of (X_2025 p) col = Some t
                    \<and> (isnull_any t \<longrightarrow> warning p))"
    if "col \<in> set cols" for col
  proof -
    from prepared_columns[OF assms(1) p that] obtain s t where
      st: "map_of X0 col = Some s" "map_of A0 col = Some t"
          "map_of (X p) col = Some (fill_train s)" "map_of (X_2025 p) col = Some (fill_with s t)"
      by blast
    show ?thesis
    proof (cases "isnull_any s")
      case True
      with st show ?thesis by (auto simp: fill_train_def fill_with_def)
    next
      case False
      with st have u: "map_of (X p) col = Some s" "map_of (X_2025 p) col = Some t"
        by (simp_all add: fill_train_def fill_with_def)
      have "warning p" if "isnull_any t"
        using frame_isnull_sum_pos[OF u(2) that] w by simp
      with st u False show ?thesis by auto
    qed
  qed
  show ?thesis
  proof (intro exI[of _ p] conjI ballI allI impI)
    show "prepare df_master = Inr p" by (rule p)
  next
    fix col assume "col \<in> set cols"
    then show "\<exists>s t. map_of X0 col = Some s \<and> map_of A0 col = Some t
             \<and> (if isnull_any s
                 then map_of (X p) col = Some (fillna (series_mean s) s)
                    \<and> map_of (X_2025 p) col = Some (fillna (series_mean s) t)
                 else map_of (X p) col = Some s \<and> map_of (X_2025 p) col = Some t
                    \<and> (isnull_any t \<longrightarrow> warning p))"
      by (rule cols)
  next
    show "warning p = (frame_isnull_sum (X p) > 0 \<or> frame_isnull_sum (X_2025 p) > 0)" by (rule w)
  next
    fix sk :: "'a estimators" and models st saved name trained
    assume "train_and_select sk models p = Inr (st, saved)" "best_model st = Some (name, trained)"
    then show "notebook_09 sk models df_master =
               and_then (predict_2025 sk trained (X_2025_scaled_df p) (df_2025_of df_master))
                 (\<lambda>table. Inr (p, st, saved, table))"
      by (rule notebook_09_after_prepare[OF p])
  qed
qed

theorem imputation_only_where_training_has_missing_values_witness:
  "prepare example_master = Inr example_prepared
   \<and> map_of (X example_prepared) ''ndvi_mean'' = Some [Some 1, Some 3]
   \<and> map_of (X_2025 example_prepared) ''ndvi_mean'' = Some [None, Some 2]
   \<and> map_of (X example_prepared) ''rain_sum'' = Some (fillna (Some 4) [None, Some 4])
   \<and> map_of (X_2025 example_prepared) ''rain_sum'' = Some (fillna (Some 4) [None, Some 6])
   \<and> warning example_prepared
   \<and> notebook_09 example_estimators example_models example_master =
       and_then (predict_2025 example_estimators 12 (X_2025_scaled_df example_prepared)
                   (df_2025_of example_master))
         (\<lambda>table. Inr (example_prepared, example_selection, example_artifacts, table))"
proof -
  from imputation_only_where_training_has_missing_values[where ?'a = nat, OF split_example n_rows_example]
  obtain p where all: "prepare example_master = Inr p
       \<and> (\<forall>col \<in> set [''ndvi_mean'', ''rain_sum''].
             \<exists>s t. map_of [(''ndvi_mean'', [Some 1, Some 3]), (''rain_sum'', [None, Some 4])] col = Some s
                 \<and> map_of [(''ndvi_mean'', [None, Some 2]), (''rain_sum'', [None, Some 6])] col = Some t
             \<and> (if isnull_any s
                 then map_of (X p) col = Some (fillna (series_mean s) s)
                    \<and> map_of (X_2025 p) col = Some (fillna (series_mean s) t)
                 else map_of (X p) col = Some s \<and> map_of (X_2025 p) col = Some t
                    \<and> (isnull_any t \<longrightarrow> warning p)))
       \<and> warning p = (frame_isnull_sum (X p) > 0 \<or> frame_isnull_sum (X_2025 p) > 0)
       \<and> (\<forall>(sk :: nat estimators) models st saved name trained.
             train_and_select sk models p = Inr (st, saved) \<longrightarrow> best_model st = Some (name, trained) \<longrightarrow>
             notebook_09 sk models example_master =
               and_then (predict_2025 sk trained (X_2025_scaled_df p) (df_2025_of example_master))
                 (\<lambda>table. Inr (p, st, saved, table)))" ..
  then have p: "prepare example_master = Inr p"
    and c: "\<forall>col \<in> set [''ndvi_mean'', ''rain_sum''].
             \<exists>s t. map_of [(''ndvi_mean'', [Some 1, Some 3]), (''rain_sum'', [None, Some 4])] col = Some s
                 \<and> map_of [(''ndvi_mean'', [None, Some 2]), (''rain_sum'', [None, Some 6])] col = Some t
             \<and> (if isnull_any s
                 then map_of (X p) col = Some (fillna (series_mean s) s)
                    \<and> map_of (X_2025 p) col = Some (fillna (series_mean s) t)
                 else map_of (X p) col = Some s \<and> map_of (X_2025 p) col = Some t
                    \<and> (isnull_any t \<longrightarrow> warning p))"
    and n: "\<forall>(sk :: nat estimators) models st saved name trained.
             train_and_select sk models p = Inr (st, saved) \<longrightarrow> best_model st = Some (name, trained) \<longrightarrow>
             notebook_09 sk models example_master =
               and_then (predict_2025 sk trained (X_2025_scaled_df p) (df_2025_of example_master))
                 (\<lambda>table. Inr (p, st, saved, table))"
    by simp_all
  from p have e: "p = example_prepared" by (simp add: prepare_example)
  have b: "best_model example_selection = Some (''XGBoost'', 12)"
    by (simp add: example_selection_def)
  from n[rule_format, of example_estimators example_models example_selection example_artifacts
        "''XGBoost''" 12] train_example b e
  have nb: "notebook_09 example_estimators example_models example_master =
       and_then (predict_2025 example_estimators 12 (X_2025_scaled_df example_prepared)
                   (df_2025_of example_master))
         (\<lambda>table. Inr (example_prepared, example_selection, example_artifacts, table))"
    by simp
  from c have "map_of (X p) ''ndvi_mean'' = Some [Some 1, Some 3]
      \<and> map_of (X_2025 p) ''ndvi_mean'' = Some [None, Some 2] \<and> warning p
      \<and> map_of (X p) ''rain_sum'' = Some (fillna (Some 4) [None, Some 4])
      \<and> map_of (X_2025 p) ''rain_sum'' = Some (fillna (Some 4) [None, Some 6])"
    by (simp add: series_mean_def)
  with p e nb show ?thesis by simp
qed



subsection \<open>Notebook 09: training, selection and prediction\<close>



text \<open>
  C5 as stated fails: with four variants of which only Ridge raises (in its fit on the full
  data), the run does not go on with the other three; it ends with the error of Ridge.
\<close>

theorem variant_failure_aborts_run_counterexample:
  "variant_raises failing_estimators (X_scaled_df example_prepared) (y example_prepared) 3
   \<and> \<not> variant_raises failing_estimators (X_scaled_df example_prepared) (y example_prepared) 1
   \<and> \<not> variant_raises failing_estimators (X_scaled_df example_prepared) (y example_prepared) 2
   \<and> \<not> variant_raises failing_estimators (X_scaled_df example_prepared) (y example_prepared) 4
   \<and> train_and_select failing_estimators example_models example_prepared
       = Inl (ValueError ''did not converge'')
   \<and> notebook_09 failing_estimators example_models example_master
       = Inl (ValueError ''did not converge'')"
proof -
  have "notebook_09 failing_estimators example_models example_master
       = Inl (ValueError ''did not converge'')"
    by (simp add: notebook_09_def prepare_example train_failing_example)
  moreover have "variant_raises failing_estimators (X_scaled_df example_prepared) (y example_prepared) 3"
    and "\<not> variant_raises failing_estimators (X_scaled_df example_prepared) (y example_prepared) 1"
    and "\<not> variant_raises failing_estimators (X_scaled_df example_prepared) (y example_prepared) 2"
    and "\<not> variant_raises failing_estimators (X_scaled_df example_prepared) (y example_prepared) 4"
    by (simp_all add: variant_raises_def failing_estimators_def)
  ultimately show ?thesis using train_failing_example by simp
qed

text \<open>
  C5, as the code has it. The loop has no exception handler: when the scoring or the fit
  of any variant of the dict raises, the training section ends with an error, no variant is
  selected, and the notebook ends with an error as well.
\<close>

theorem variant_failure_aborts_run:
  assumes "(name, model) \<in> set models"
      and "variant_raises sk (X_scaled_df p) (y p) model"
  shows "(\<exists>e. train_and_select sk models p = Inl e)
       \<and> (\<forall>df_master. prepare df_master = Inr p \<longrightarrow> (\<exists>e. notebook_09 sk models df_master = Inl e))"
proof -
  from train_loop_raises[OF assms] obtain e where
    "train_loop sk (X_scaled_df p) (y p) models initial_selection = Inl e" by blast
  then have "train_and_select sk models p = Inl e"
    by (simp add: train_and_select_def)
  then show ?thesis by (auto simp: notebook_09_def)
qed

theorem variant_failure_aborts_run_witness:
  "(\<exists>e. train_and_select failing_estimators example_models example_prepared = Inl e)
   \<and> (\<exists>e. notebook_09 failing_estimators example_models example_master = Inl e)"
proof -
  have m: "(''Ridge'', 3) \<in> set example_models"
    by (simp add: example_models_def)
  have r: "variant_raises failing_estimators (X_scaled_df example_prepared) (y example_prepared) 3"
    by (simp add: variant_raises_def failing_estimators_def)
  from variant_failure_aborts_run[OF m r] prepare_example show ?thesis by blast
qed

text \<open>
  C8. When the training section ends with a selection, the estimator kept for every
  variant is the result of \<open>fit\<close> on the whole scaled training table and target; the pickled
  model is the one of the winning variant; and two runs whose \<open>fit\<close> is the same keep the
  same estimators whatever their cross-validation scores are.
\<close>

theorem refit_on_full_training_data:
  assumes "train_and_select sk models p = Inr (st, saved)"
  shows "list_all2 (\<lambda>(name, model) (name', trained).
             name' = name \<and> fit sk model (X_scaled_df p) (y p) = Inr trained)
           models (models_fitted st)
       \<and> (\<exists>name model. (name, model) \<in> set models
             \<and> best_model st = Some (name, best_yield_prediction_model saved)
             \<and> fit sk model (X_scaled_df p) (y p) = Inr (best_yield_prediction_model saved))
       \<and> (\<forall>sk' st' saved'. fit sk' = fit sk \<longrightarrow> train_and_select sk' models p = Inr (st', saved')
             \<longrightarrow> models_fitted st' = models_fitted st)"
proof (intro conjI allI impI)
  from train_and_select_Inr[OF assms] obtain name0 where
    l: "train_loop sk (X_scaled_df p) (y p) models initial_selection = Inr st" and
    b: "best_model st = Some (name0, best_yield_prediction_model saved)"
    by blast
  from train_loop_fitted[OF l]
  show f: "list_all2 (\<lambda>(name, model) (name', trained).
             name' = name \<and> fit sk model (X_scaled_df p) (y p) = Inr trained)
           models (models_fitted st)"
    by (simp add: initial_selection_def)
  from train_loop_best[OF l] b
  show "\<exists>name model. (name, model) \<in> set models
             \<and> best_model st = Some (name, best_yield_prediction_model saved)
             \<and> fit sk model (X_scaled_df p) (y p) = Inr (best_yield_prediction_model saved)"
    by (auto simp: initial_selection_def)
  fix sk' :: "'a estimators" and st' saved'
  assume e: "fit sk' = fit sk" and t: "train_and_select sk' models p = Inr (st', saved')"
  from train_and_select_Inr[OF t]
  have "train_loop sk' (X_scaled_df p) (y p) models initial_selection = Inr st'" by blast
  from train_loop_fitted[OF this]
  have "list_all2 (\<lambda>(name, model) (name', trained).
             name' = name \<and> fit sk model (X_scaled_df p) (y p) = Inr trained)
           models (models_fitted st')"
    by (simp add: initial_selection_def e)
  with f show "models_fitted st' = models_fitted st"
    using fitted_unique[of "\<lambda>model. fit sk model (X_scaled_df p) (y p)" models "models_fitted st'" "models_fitted st"]
    by blast
qed

theorem refit_on_full_training_data_witness:
  "list_all2 (\<lambda>(name, model) (name', trained).
             name' = name
           \<and> fit example_estimators model (X_scaled_df example_prepared) (y example_prepared) = Inr trained)
           example_models (models_fitted example_selection)
   \<and> (\<exists>name model. (name, model) \<in> set example_models
             \<and> best_model example_selection = Some (name, best_yield_prediction_model example_artifacts)
             \<and> fit example_estimators model (X_scaled_df example_prepared) (y example_prepared)
                 = Inr (best_yield_prediction_model example_artifacts))
   \<and> (\<exists>st' saved'.
          train_and_select constant_score_estimators example_models example_prepared = Inr (st', saved')
        \<and> best_model st' = Some (''Random Forest'', 11)
        \<and> models_fitted st' = models_fitted example_selection)"
proof -
  note t = refit_on_full_training_data[OF train_example]
  from train_constant_example obtain st' saved' where
    c: "train_and_select constant_score_estimators example_models example_prepared = Inr (st', saved')"
       "best_model st' = Some (''Random Forest'', 11)"
    by blast
  have "fit constant_score_estimators = fit example_estimators"
    by (simp add: constant_score_estimators_def example_estimators_def)
  with t c(1) have "models_fitted st' = models_fitted example_selection" by blast
  with c t show ?thesis by blast
qed

text \<open>
  C7. In the prediction table every predicted yield is 0 where the raw prediction is
  negative and the raw prediction otherwise, row by row, and none is negative.
\<close>

theorem predictions_are_clamped:
  assumes "predict_2025 sk trained X_df df_2025 = Inr table"
      and "predict sk trained X_df = Inr raw"
      and "length (woreda_id df_2025) = length (year df_2025)"
      and "length (woreda_name df_2025) = length (year df_2025)"
  shows "map (\<lambda>(wid, name, yr, v). v) table = map (\<lambda>x. if x < 0 then 0 else x) raw
       \<and> (\<forall>(wid, name, yr, v) \<in> set table. 0 \<le> v)"
proof -
  from assms(1,2) have len: "length raw = length (year df_2025)"
    and table: "table = zip (woreda_id df_2025) (zip (woreda_name df_2025)
                    (zip (year df_2025) (clamp_predictions raw)))"
    by (auto simp: predict_2025_def split: if_splits)
  have c: "clamp_predictions raw = map (\<lambda>x. if x < 0 then 0 else x) raw"
    by (auto simp: clamp_predictions_def max0_def)
  have "map (\<lambda>(wid, name, yr, v). v) table = map (snd \<circ> snd \<circ> snd) table"
    by (simp add: comp_def case_prod_unfold)
  also have "\<dots> = clamp_predictions raw"
    unfolding table using len assms(3,4) by (simp add: clamp_predictions_def flip: map_map)
  finally have m: "map (\<lambda>(wid, name, yr, v). v) table = clamp_predictions raw" .
  have "\<forall>v \<in> set (clamp_predictions raw). 0 \<le> v"
    by (auto simp: clamp_predictions_def max0_def)
  then have "\<forall>v \<in> set (map (\<lambda>(wid, name, yr, v). v) table). 0 \<le> v"
    by (simp only: m)
  then have "\<forall>(wid, name, yr, v) \<in> set table. 0 \<le> v" by auto
  with m c show ?thesis by simp
qed

theorem predictions_are_clamped_witness:
  "predict_2025 example_estimators 12 (X_2025_scaled_df example_prepared) (df_2025_of example_master)
     = Inr [(''W01'', ''Bensa'', 2025, 0), (''W02'', ''Aroresa'', 2025, 5/2)]
   \<and> map (\<lambda>(wid, name, yr, v). v)
         [(''W01'', ''Bensa'', 2025 :: int, 0 :: real), (''W02'', ''Aroresa'', 2025, 5/2)]
       = map (\<lambda>x. if x < 0 then 0 else x) [- 3/2, 5/2]
   \<and> list_all (\<lambda>(wid, name, yr, v). 0 \<le> v)
         [(''W01'', ''Bensa'', 2025 :: int, 0 :: real), (''W02'', ''Aroresa'', 2025, 5/2)]"
proof -
  have raw: "predict example_estimators 12 (X_2025_scaled_df example_prepared) = Inr [- 3/2, 5/2]"
    by (simp add: example_estimators_def)
  have l1: "length (woreda_id (df_2025_of example_master)) = length (year (df_2025_of example_master))"
    and l2: "length (woreda_name (df_2025_of example_master)) = length (year (df_2025_of example_master))"
    by (simp_all add: df_2025_of_def example_master_def take_rows_def boolean_mask_def)
  from predictions_are_clamped[OF predict_example raw l1 l2] predict_example
  show ?thesis by (simp add: list_all_iff)
qed

subsection \<open>Notebook 05\<close>

text \<open>
  C3, where the code fails. geopandas is never imported, so loading the boundaries raises
  NameError, which the handler swallows, \<open>gdf_woredas\<close> stays None and the guarded block is
  skipped: for two files with two rows of the same (woreda_id, year, month) the cell writes
  no table at all. The block itself, given the names of the boundary table, would hold
  exactly one row for that key, with the means of the two rows.
\<close>

theorem duplicates_are_never_aggregated:
  "notebook_05 example_read_file example_files = Inr None
   \<and> rows_of ''W01'' 2020 6
         (aggregate_vi (to_dict (gdf_rows example_gdf)) (concat example_files)) =
       [\<lparr> woreda_id_vi = ''W01'', year_vi = 2020, month_vi = 6,
          avg_ndvi = Some (2/5), avg_savi = Some 2, woreda_name_vi = Some ''Bensa'' \<rparr>]"
proof -
  have ne: "rows_of ''W01'' 2020 6 (concat example_files) \<noteq> []"
    by (simp add: concat_example_files rows_of_def)
  from aggregate_one_row[of "to_dict (gdf_rows example_gdf)" "''W01''" "''Bensa''" 2020 6
      "concat example_files", OF to_dict_example(1) ne]
  have "rows_of ''W01'' 2020 6
         (aggregate_vi (to_dict (gdf_rows example_gdf)) (concat example_files)) =
       [\<lparr> woreda_id_vi = ''W01'', year_vi = 2020, month_vi = 6,
          avg_ndvi = Some (2/5), avg_savi = Some 2, woreda_name_vi = Some ''Bensa'' \<rparr>]"
    by (simp add: concat_example_files rows_of_def series_mean_def)
  then show ?thesis by (simp add: notebook_05_writes_nothing)
qed


end
